theory Spec2Isabelle
  imports Complex_Main "HOL-Library.Monad_Syntax"
begin

section \<open>Data model of the route\<close>

text \<open>
  The embedding follows \<^verbatim>\<open>src/route/route.cpp\<close>. The class \<^verbatim>\<open>Route\<close> is a
  \<^verbatim>\<open>QList<RouteLeg>\<close> with additional members; it becomes a record whose field
  \<open>legs\<close> is the list.

  C++ \<^verbatim>\<open>int\<close> is \<open>int\<close>. The indices the functions compute lie between \<open>-1\<close> and the
  size of the list, and the "no index" sentinel is tested before anything is added to
  it, so these additions stay in the range of a 32-bit \<^verbatim>\<open>int\<close>; the one sum that may
  leave it, an offset plus a number of legs in \<^verbatim>\<open>canEditLeg\<close>, is bounded by a hypothesis
  where it matters.

  C++ \<^verbatim>\<open>float\<close> is \<open>real\<close>: comparisons, \<^verbatim>\<open>std::abs\<close> and \<^verbatim>\<open>std::max\<close> are exact on finite
  floats; the rounding of \<^verbatim>\<open>+\<close>, \<^verbatim>\<open>-\<close>, \<^verbatim>\<open>*\<close> and \<^verbatim>\<open>/\<close>, infinities and NaN are not
  modelled.

  A read \<^verbatim>\<open>at(i)\<close> outside the list is undefined in Qt; here it is the result \<open>None\<close>,
  and a function that may read outside the list returns an \<open>option\<close>.
\<close>

subsection \<open>Line distance results (\<^verbatim>\<open>atools::geo::LineDistance\<close>)\<close>

datatype LineDistStatus = INVALID | ALONG_TRACK | BEFORE_START | AFTER_END

record LineDistance =
  status :: LineDistStatus
  distance :: real
  distanceFrom1 :: real
  distanceFrom2 :: real

subsection \<open>Sentinels (\<^verbatim>\<open>map::INVALID_INDEX_VALUE\<close>, \<^verbatim>\<open>map::INVALID_DISTANCE_VALUE\<close>)\<close>

text \<open>
  Modelled from the spec: the two sentinels are declared in a header of namespace
  \<^verbatim>\<open>map\<close>, outside \<^verbatim>\<open>route.cpp\<close>. The spec calls them the "no index" and the "invalid
  distance" sentinels; the code tests for a valid index with \<^verbatim>\<open>activeLeg < map::INVALID_INDEX_VALUE\<close>
  and starts a minimum search at \<^verbatim>\<open>map::INVALID_DISTANCE_VALUE\<close>, so they are the largest
  \<^verbatim>\<open>int\<close> and the largest finite \<^verbatim>\<open>float\<close>.
\<close>

definition INVALID_INDEX_VALUE :: int where
  "INVALID_INDEX_VALUE = 2147483647"

definition INVALID_DISTANCE_VALUE :: real where
  "INVALID_DISTANCE_VALUE = 340282346638528859811704183484516925440"

subsection \<open>Map object types and procedure legs\<close>

text \<open>
  \<^verbatim>\<open>map::MapObjectTypes\<close> is a set of flags; a set of the flag names models it, with
  \<^verbatim>\<open>a & b\<close> read as a non-empty intersection.
\<close>

datatype MapObjectType =
  AIRPORT | VOR | NDB | WAYPOINT | USER | MAP_INVALID | MISSED_APPROACH | PROCEDURE

datatype ProcedureLegType =
  INITIAL_FIX | START_OF_PROCEDURE | PROCEDURE_TURN | OTHER_LEG_TYPE nat

record 'p Line =
  pos1 :: 'p
  pos2 :: 'p

text \<open>
  \<^verbatim>\<open>proc::MapProcedureLeg\<close>. Its predicates \<^verbatim>\<open>isHold()\<close>, \<^verbatim>\<open>isMissed()\<close>,
  \<^verbatim>\<open>isAnyDeparture()\<close>, \<^verbatim>\<open>isAnyStar()\<close> and \<^verbatim>\<open>isArrival()\<close> are computed from the
  type tags in a header outside \<^verbatim>\<open>route.cpp\<close>; each leg carries their values as flags,
  the way the data model of the spec lists them.
\<close>

record 'p MapProcedureLeg =
  legType :: ProcedureLegType
  line :: "'p Line"
  holdLine :: "'p Line"
  turnDirection :: string
  calculatedDistance :: real
  geometry :: "'p list"
  isHold :: bool
  isMissed :: bool
  isAnyDeparture :: bool
  isAnyStar :: bool
  isArrival :: bool

text \<open>\<^verbatim>\<open>RouteLeg\<close>: the members the route functions read or write.\<close>

record 'p RouteLeg =
  position :: 'p
  procedureLeg :: "'p MapProcedureLeg"
  mapObjectType :: "MapObjectType set"
  distanceTo :: real
  legGeometry :: "'p list"
  isAnyProcedure :: bool
  flightplanEntryIndex :: int

definition getProcedureLegType :: "'p RouteLeg \<Rightarrow> ProcedureLegType" where
  "getProcedureLegType leg = legType (procedureLeg leg)"

record 'p PosCourse =
  pos :: 'p
  course :: real

type_synonym Rect = "real \<times> real \<times> real \<times> real"

record 'p Route =
  legs :: "'p RouteLeg list"
  totalDistance :: real
  shownTypes :: "MapObjectType set"
  boundingRect :: Rect
  activePos :: "'p PosCourse"
  trueCourse :: bool
  arrivalLegs :: "'p MapProcedureLeg list"
  starLegs :: "'p MapProcedureLeg list"
  departureLegs :: "'p MapProcedureLeg list"
  departureLegsOffset :: int
  starLegsOffset :: int
  arrivalLegsOffset :: int
  activeLeg :: int
  activeLegResult :: LineDistance

subsection \<open>The collaborators of the route\<close>

text \<open>
  The geometry primitives of the \<^verbatim>\<open>atools\<close> library, the Marble bounding box and the
  per-leg update methods of \<^verbatim>\<open>RouteLeg\<close> are called by the route code and defined
  elsewhere. They are the fields of an environment that every function below takes as
  its first argument, so each theorem holds for whatever these collaborators compute.
  A primitive with an out-parameter, such as
  \<^verbatim>\<open>pos.distanceMeterToLine(p1, p2, result)\<close>, is the function returning that result.
\<close>

record 'p Env =
  Pos_new :: 'p
  EMPTY_POS :: 'p
  Pos_isValid :: "'p \<Rightarrow> bool"
  Pos_eq :: "'p \<Rightarrow> 'p \<Rightarrow> bool"
  PosCourse_new :: "'p PosCourse"
  PosCourse_isValid :: "'p PosCourse \<Rightarrow> bool"
  LineDistance_new :: LineDistance
  distanceMeterTo :: "'p \<Rightarrow> 'p \<Rightarrow> real"
  distanceMeterToLine :: "'p \<Rightarrow> 'p \<Rightarrow> 'p \<Rightarrow> LineDistance"
  Line_distanceMeterToLine :: "'p Line \<Rightarrow> 'p \<Rightarrow> LineDistance"
  distanceMeterToLineString :: "'p list \<Rightarrow> 'p \<Rightarrow> LineDistance"
  angleDegTo :: "'p \<Rightarrow> 'p \<Rightarrow> real"
  Pos_interpolate :: "'p \<Rightarrow> 'p \<Rightarrow> real \<Rightarrow> 'p"
  LineString_interpolate :: "'p list \<Rightarrow> real \<Rightarrow> 'p"
  nmToMeter :: "real \<Rightarrow> real"
  meterToNm :: "real \<Rightarrow> real"
  normalizeCourse :: "real \<Rightarrow> real"
  atools_mod :: "real \<Rightarrow> real \<Rightarrow> real"
  NAV_MAGVAR :: "MapObjectType set"
  fromLineString :: "'p list \<Rightarrow> Rect"
  leg_updateMagvar :: "'p RouteLeg \<Rightarrow> 'p RouteLeg"
  leg_updateInvalidMagvar :: "int \<Rightarrow> 'p Route \<Rightarrow> 'p RouteLeg \<Rightarrow> 'p RouteLeg"
  leg_updateDistanceAndCourse :: "int \<Rightarrow> 'p RouteLeg option \<Rightarrow> 'p RouteLeg \<Rightarrow> 'p RouteLeg"

section \<open>Access to the list of legs\<close>

definition size_legs :: "'p Route \<Rightarrow> int" where
  "size_legs r = int (length (legs r))"

definition isEmpty :: "'p Route \<Rightarrow> bool" where
  "isEmpty r = (legs r = [])"

definition at_leg :: "'p Route \<Rightarrow> int \<Rightarrow> 'p RouteLeg option" where
  "at_leg r i = (if 0 \<le> i \<and> i < size_legs r then Some (legs r ! nat i) else None)"

definition getPositionAt :: "'p Route \<Rightarrow> int \<Rightarrow> 'p option" where
  "getPositionAt r i = map_option position (at_leg r i)"

text \<open>
  Modelled from the spec: \<^verbatim>\<open>hasAnyDepartureProcedure()\<close>, \<^verbatim>\<open>hasAnyStarProcedure()\<close> and
  \<^verbatim>\<open>hasAnyArrivalProcedure()\<close> are declared in the header of the class, outside
  \<^verbatim>\<open>route.cpp\<close>. The spec speaks of an "existing" block: the block of procedure legs
  the route holds is not empty.
\<close>

definition hasAnyDepartureProcedure :: "'p Route \<Rightarrow> bool" where
  "hasAnyDepartureProcedure r = (departureLegs r \<noteq> [])"

definition hasAnyStarProcedure :: "'p Route \<Rightarrow> bool" where
  "hasAnyStarProcedure r = (starLegs r \<noteq> [])"

definition hasAnyArrivalProcedure :: "'p Route \<Rightarrow> bool" where
  "hasAnyArrivalProcedure r = (arrivalLegs r \<noteq> [])"

section \<open>Editing rule\<close>

definition canEditLeg :: "'p Route \<Rightarrow> int \<Rightarrow> bool" where
  "canEditLeg r index =
     (if hasAnyDepartureProcedure r \<and>
         index < departureLegsOffset r + int (length (departureLegs r)) then False
      else if hasAnyStarProcedure r \<and> index > starLegsOffset r then False
      else if hasAnyArrivalProcedure r \<and> index > arrivalLegsOffset r then False
      else True)"

section \<open>Active leg: queries\<close>

text \<open>
  \<^verbatim>\<open>getActiveLegIndexCorrected(bool *corrected)\<close>. The pointer is \<open>None\<close> when it is
  null and \<open>Some b\<close> when it points to a \<^verbatim>\<open>bool\<close> holding \<open>b\<close>; the function returns
  the index together with the pointer's target after the call. The operands of \<^verbatim>\<open>&&\<close>
  are evaluated from the left, so \<^verbatim>\<open>at(nextLeg)\<close> is read only when both comparisons hold.
\<close>

definition getActiveLegIndexCorrected ::
  "'p Route \<Rightarrow> bool option \<Rightarrow> (int \<times> bool option) option" where
  "getActiveLegIndexCorrected r corrected =
     (if activeLeg r = INVALID_INDEX_VALUE then Some (INVALID_INDEX_VALUE, corrected)
      else
        let nextLeg = activeLeg r + 1 in
        if nextLeg < size_legs r \<and> nextLeg = size_legs r then
          do {
            leg \<leftarrow> at_leg r nextLeg;
            if isAnyProcedure leg
            then Some (activeLeg r + 1, map_option (\<lambda>_. True) corrected)
            else Some (activeLeg r, map_option (\<lambda>_. False) corrected)
          }
        else Some (activeLeg r, map_option (\<lambda>_. False) corrected))"


section \<open>Nearest-leg locator\<close>

text \<open>
  \<^verbatim>\<open>nearestAllLegIndex(pos, crossTrackDistanceMeter, index)\<close>: the two reference
  parameters are the returned pair. The loop runs over \<open>i = 1, ..., size() - 1\<close>, so
  both positions it reads are inside the list; its state is
  \<open>(minDistance, crossTrackDistanceMeter, index)\<close>.
\<close>

definition nearestAllLegStep ::
  "'p Env \<Rightarrow> 'p Route \<Rightarrow> 'p \<Rightarrow> nat \<Rightarrow> real \<times> real \<times> int \<Rightarrow> real \<times> real \<times> int" where
  "nearestAllLegStep env r p i st =
     (case st of (minDistance, crossTrackDistanceMeter, index) \<Rightarrow>
        let result = distanceMeterToLine env p (position (legs r ! (i - 1))) (position (legs r ! i));
            dist = \<bar>distance result\<bar>
        in if status result \<noteq> INVALID \<and> dist < minDistance
           then (dist, distance result, int i)
           else (minDistance, crossTrackDistanceMeter, index))"

definition nearestAllLegIndex :: "'p Env \<Rightarrow> 'p Route \<Rightarrow> 'p PosCourse \<Rightarrow> real \<times> int" where
  "nearestAllLegIndex env r pc =
     (if \<not> PosCourse_isValid env pc then (INVALID_DISTANCE_VALUE, INVALID_INDEX_VALUE)
      else
        case fold (nearestAllLegStep env r (pos pc)) [1..<length (legs r)]
               (INVALID_DISTANCE_VALUE, INVALID_DISTANCE_VALUE, INVALID_INDEX_VALUE) of
          (minDistance, crossTrackDistanceMeter, index) \<Rightarrow>
            if crossTrackDistanceMeter < INVALID_DISTANCE_VALUE then
              if \<bar>crossTrackDistanceMeter\<bar> > nmToMeter env 100
              then (INVALID_DISTANCE_VALUE, INVALID_INDEX_VALUE)
              else (crossTrackDistanceMeter, index)
            else (crossTrackDistanceMeter, index))"

text \<open>
  \<^verbatim>\<open>getNearestRouteLegResult(pos, lineDistanceResult, ignoreNotEditable)\<close> returns the
  index together with the out-parameter, of which it first overwrites the status and
  the distance only. The local \<^verbatim>\<open>minResult\<close> starts as a fresh \<^verbatim>\<open>LineDistance\<close>.
\<close>

definition nearestRouteLegStep ::
  "'p Env \<Rightarrow> 'p Route \<Rightarrow> 'p \<Rightarrow> bool \<Rightarrow> nat \<Rightarrow> LineDistance \<times> int \<Rightarrow> LineDistance \<times> int" where
  "nearestRouteLegStep env r p ignoreNotEditable i st =
     (case st of (minResult, index) \<Rightarrow>
        if ignoreNotEditable \<and> \<not> canEditLeg r (int i) then (minResult, index)
        else
          let result = distanceMeterToLine env p (position (legs r ! (i - 1))) (position (legs r ! i))
          in if status result \<noteq> INVALID \<and> \<bar>distance result\<bar> < \<bar>distance minResult\<bar>
             then (result, int i)
             else (minResult, index))"

definition getNearestRouteLegResult ::
  "'p Env \<Rightarrow> 'p Route \<Rightarrow> 'p \<Rightarrow> LineDistance \<Rightarrow> bool \<Rightarrow> int \<times> LineDistance" where
  "getNearestRouteLegResult env r p lineDistanceResult ignoreNotEditable =
     (let lineDistanceResult =
            lineDistanceResult\<lparr>status := INVALID, distance := INVALID_DISTANCE_VALUE\<rparr>
      in if \<not> Pos_isValid env p then (INVALID_INDEX_VALUE, lineDistanceResult)
         else
           case fold (nearestRouteLegStep env r p ignoreNotEditable) [1..<length (legs r)]
                  ((LineDistance_new env)\<lparr>status := INVALID, distance := INVALID_DISTANCE_VALUE\<rparr>,
                   INVALID_INDEX_VALUE) of
             (minResult, index) \<Rightarrow>
               if index \<noteq> INVALID_INDEX_VALUE then (index, minResult)
               else (index, lineDistanceResult))"

section \<open>Active-leg tracker\<close>

definition resetActive :: "'p Env \<Rightarrow> 'p Route \<Rightarrow> 'p Route" where
  "resetActive env r =
     r\<lparr>activeLegResult :=
         (activeLegResult r)\<lparr>distanceFrom1 := INVALID_DISTANCE_VALUE,
                              distanceFrom2 := INVALID_DISTANCE_VALUE,
                              distance := INVALID_DISTANCE_VALUE,
                              status := INVALID\<rparr>,
       activePos := PosCourse_new env,
       activeLeg := INVALID_INDEX_VALUE\<rparr>"

definition isSmaller :: "LineDistance \<Rightarrow> LineDistance \<Rightarrow> real \<Rightarrow> bool" where
  "isSmaller dist1 dist2 epsilon = (\<bar>distance dist1\<bar> < \<bar>distance dist2\<bar> + epsilon)"

text \<open>
  The two \<^verbatim>\<open>while\<close> loops that move the candidate past initial fixes. The first is
  taken when the active leg is not a hold, the second when it is. Each reads
  \<^verbatim>\<open>at(nextLeg)\<close> before it tests the bound \<^verbatim>\<open>nextLeg < size() - 2\<close>.
\<close>

function skipPointLegs :: "'p Env \<Rightarrow> 'p Route \<Rightarrow> int \<Rightarrow> int option" where
  "skipPointLegs env r nextLeg =
     (case at_leg r nextLeg of
        None \<Rightarrow> None
      | Some leg \<Rightarrow>
          if getProcedureLegType leg \<in> {INITIAL_FIX, START_OF_PROCEDURE} then
            (case getPositionAt r (nextLeg - 1) of
               None \<Rightarrow> None
             | Some prev \<Rightarrow>
                 if Pos_eq env prev (position leg) \<and> nextLeg < size_legs r - 2
                 then skipPointLegs env r (nextLeg + 1)
                 else Some nextLeg)
          else Some nextLeg)"
  by pat_completeness auto
termination
  by (relation "measure (\<lambda>(env, r, nextLeg). nat (size_legs r - nextLeg))") auto

declare skipPointLegs.simps [simp del]

function skipInitialFixes :: "'p Route \<Rightarrow> int \<Rightarrow> int option" where
  "skipInitialFixes r nextLeg =
     (case at_leg r nextLeg of
        None \<Rightarrow> None
      | Some leg \<Rightarrow>
          if getProcedureLegType leg \<in> {INITIAL_FIX, START_OF_PROCEDURE} \<and>
             nextLeg < size_legs r - 2
          then skipInitialFixes r (nextLeg + 1)
          else Some nextLeg)"
  by pat_completeness auto
termination
  by (relation "measure (\<lambda>(r, nextLeg). nat (size_legs r - nextLeg))") auto

declare skipInitialFixes.simps [simp del]

text \<open>
  The decision \<^verbatim>\<open>switchToNextLeg\<close> of \<^verbatim>\<open>updateActiveLegAndPos\<close>, for the candidate
  \<open>nextLeg\<close>, the course difference and the line distance to the candidate's segment.
\<close>

definition switchToNextLeg ::
  "'p Env \<Rightarrow> 'p Route \<Rightarrow> int \<Rightarrow> real \<Rightarrow> LineDistance \<Rightarrow> bool option" where
  "switchToNextLeg env r nextLeg courseDiff nextLegResult =
     do {
       active \<leftarrow> at_leg r (activeLeg r);
       if isHold (procedureLeg active) then
         do {
           next \<leftarrow> at_leg r nextLeg;
           if Pos_eq env (pos1 (line (procedureLeg next))) (position active) then
             Some (status nextLegResult = ALONG_TRACK \<and>
                   \<bar>distance nextLegResult\<bar> < nmToMeter env 0.5 \<and>
                   distanceFrom1 nextLegResult > nmToMeter env 0.75 \<and>
                   courseDiff < 25)
           else
             let resultHold =
                   Line_distanceMeterToLine env (holdLine (procedureLeg active)) (pos (activePos r))
             in Some (status resultHold = ALONG_TRACK \<and>
                      distance resultHold <
                        nmToMeter env (if turnDirection (procedureLeg active) = ''R'' then - 0.5 else 0.5))
         }
       else
         do {
           next \<leftarrow> at_leg r nextLeg;
           if isHold (procedureLeg next) then
             Some (\<bar>distance nextLegResult\<bar> < nmToMeter env 0.5)
           else if getProcedureLegType active = PROCEDURE_TURN then
             Some (isSmaller nextLegResult (activeLegResult r) 100 \<and> courseDiff < 45)
           else
             Some (status (activeLegResult r) = AFTER_END \<or>
                   (isSmaller nextLegResult (activeLegResult r) 10 \<and> courseDiff < 90))
         }
     }"

text \<open>The body of \<^verbatim>\<open>if(nextLeg < size())\<close> in \<^verbatim>\<open>updateActiveLegAndPos\<close>.\<close>

definition tryNextLeg :: "'p Env \<Rightarrow> 'p PosCourse \<Rightarrow> 'p Route \<Rightarrow> int \<Rightarrow> 'p Route option" where
  "tryNextLeg env pc r nextLeg0 =
     do {
       active \<leftarrow> at_leg r (activeLeg r);
       nextLeg \<leftarrow> (if \<not> isHold (procedureLeg active) then skipPointLegs env r nextLeg0
                   else skipInitialFixes r nextLeg0);
       p1 \<leftarrow> getPositionAt r (nextLeg - 1);
       p2 \<leftarrow> getPositionAt r nextLeg;
       let legCrs = normalizeCourse env (angleDegTo env p1 p2);
       let courseDiff = atools_mod env (course pc - legCrs + 360) 360;
       let courseDiff = (if courseDiff > 180 then 360 - courseDiff else courseDiff);
       let nextLegResult = distanceMeterToLine env (pos (activePos r)) p1 p2;
       switch \<leftarrow> switchToNextLeg env r nextLeg courseDiff nextLegResult;
       if switch then
         do {
           next \<leftarrow> at_leg r nextLeg;
           if \<not> (MISSED_APPROACH \<notin> shownTypes r \<and> isMissed (procedureLeg next)) then
             do {
               let r' = r\<lparr>activeLeg := nextLeg\<rparr>;
               q1 \<leftarrow> getPositionAt r' (activeLeg r' - 1);
               q2 \<leftarrow> getPositionAt r' (activeLeg r');
               Some (r'\<lparr>activeLegResult := distanceMeterToLine env (pos pc) q1 q2\<rparr>)
             }
           else Some r
         }
       else Some r
     }"

text \<open>
  \<^verbatim>\<open>updateActiveLegAndPos\<close> in three parts: the start of the function up to the
  assignment of \<^verbatim>\<open>activePos\<close> (a missing active leg is taken from the nearest-leg
  locator and an index behind the end is pulled back to the last leg); the
  \<^verbatim>\<open>if(size() == 1)\<close> statement that computes \<^verbatim>\<open>activeLegResult\<close>; and the whole function,
  which then tries the next leg.
\<close>

definition initActiveLeg :: "'p Env \<Rightarrow> 'p PosCourse \<Rightarrow> 'p Route \<Rightarrow> 'p Route" where
  "initActiveLeg env pc r =
     (let r = (if activeLeg r = INVALID_INDEX_VALUE
               then r\<lparr>activeLeg := snd (nearestAllLegIndex env r pc)\<rparr> else r);
          r = (if activeLeg r \<ge> size_legs r then r\<lparr>activeLeg := size_legs r - 1\<rparr> else r)
      in r\<lparr>activePos := pc\<rparr>)"

definition updateActiveLegResult :: "'p Env \<Rightarrow> 'p Route \<Rightarrow> 'p Route option" where
  "updateActiveLegResult env r =
     (if size_legs r = 1 then
        do {
          first \<leftarrow> at_leg r 0;
          Some (r\<lparr>activeLeg := 0,
                  activeLegResult :=
                    distanceMeterToLine env (pos (activePos r)) (position first) (position first)\<rparr>)
        }
      else
        do {
          let r = (if activeLeg r = 0 then r\<lparr>activeLeg := 1\<rparr> else r);
          p1 \<leftarrow> getPositionAt r (activeLeg r - 1);
          p2 \<leftarrow> getPositionAt r (activeLeg r);
          Some (r\<lparr>activeLegResult := distanceMeterToLine env (pos (activePos r)) p1 p2\<rparr>)
        })"

definition updateActiveLegAndPos :: "'p Env \<Rightarrow> 'p PosCourse \<Rightarrow> 'p Route \<Rightarrow> 'p Route option" where
  "updateActiveLegAndPos env pc r =
     (if isEmpty r \<or> \<not> PosCourse_isValid env pc then Some (resetActive env r)
      else
        do {
          r \<leftarrow> updateActiveLegResult env (initActiveLeg env pc r);
          let nextLeg = activeLeg r + 1;
          if nextLeg < size_legs r then tryNextLeg env pc r nextLeg else Some r
        })"



section \<open>Distance reporter\<close>

text \<open>
  \<^verbatim>\<open>getRouteDistances\<close> writes through four pointers, each of which may be null. A
  pointer is \<open>None\<close> when null and \<open>Some x\<close> when it points to a \<^verbatim>\<open>float\<close> holding
  \<open>x\<close>; the function returns its \<^verbatim>\<open>bool\<close> together with the four targets after the call.
\<close>

record OutParams =
  distFromStart :: "real option"
  distToDest :: "real option"
  nextLegDistance :: "real option"
  crossTrackDistance :: "real option"

text \<open>The loop \<^verbatim>\<open>for(int i = 0; i <= routeIndex; i++)\<close> with its \<^verbatim>\<open>break\<close>.\<close>

fun fromstartLoop :: "bool \<Rightarrow> 'p RouteLeg list \<Rightarrow> real \<Rightarrow> real" where
  "fromstartLoop activeIsMissed [] fromstart = fromstart"
| "fromstartLoop activeIsMissed (leg # rest) fromstart =
     (if \<not> isMissed (procedureLeg leg) \<or> activeIsMissed
      then fromstartLoop activeIsMissed rest (fromstart + distanceTo leg)
      else fromstart)"

text \<open>The loop \<^verbatim>\<open>for(int i = routeIndex + 1; i < size(); i++)\<close> over the remaining legs.\<close>

fun missedLoop :: "'p RouteLeg list \<Rightarrow> real \<Rightarrow> real" where
  "missedLoop [] acc = acc"
| "missedLoop (leg # rest) acc =
     missedLoop rest (if isMissed (procedureLeg leg) then acc + distanceTo leg else acc)"

definition getRouteDistances :: "'p Env \<Rightarrow> 'p Route \<Rightarrow> OutParams \<Rightarrow> (bool \<times> OutParams) option" where
  "getRouteDistances env r out =
     (if activeLeg r = INVALID_INDEX_VALUE then Some (False, out)
      else
        do {
          active \<leftarrow> at_leg r (activeLeg r);
          let geometryLeg = (if isAnyProcedure active \<and> length (legGeometry active) > 2
                             then Some (procedureLeg active) else None);
          let out =
            (if crossTrackDistance out \<noteq> None then
               (case geometryLeg of
                  Some g \<Rightarrow>
                    let lineDist = distanceMeterToLineString env (geometry g) (pos (activePos r))
                    in if status lineDist = ALONG_TRACK
                       then out\<lparr>crossTrackDistance := Some (meterToNm env (distance lineDist))\<rparr>
                       else out\<lparr>crossTrackDistance := Some INVALID_DISTANCE_VALUE\<rparr>
                | None \<Rightarrow>
                    if status (activeLegResult r) = ALONG_TRACK
                    then out\<lparr>crossTrackDistance := Some (meterToNm env (distance (activeLegResult r)))\<rparr>
                    else out\<lparr>crossTrackDistance := Some INVALID_DISTANCE_VALUE\<rparr>)
             else out);
          let routeIndex = activeLeg r;
          if routeIndex \<noteq> INVALID_INDEX_VALUE then
            do {
              let routeIndex = (if routeIndex \<ge> size_legs r then size_legs r - 1 else routeIndex);
              active2 \<leftarrow> at_leg r (activeLeg r);
              let activeIsMissed = isMissed (procedureLeg active2);
              current \<leftarrow> at_leg r routeIndex;
              distToCurrent \<leftarrow>
                (if \<not> isMissed (procedureLeg current) \<or> activeIsMissed then
                   (case geometryLeg of
                      Some g \<Rightarrow>
                        Some (meterToNm env
                                (distanceFrom2 (distanceMeterToLineString env (geometry g) (pos (activePos r)))))
                    | None \<Rightarrow>
                        do {
                          p \<leftarrow> getPositionAt r routeIndex;
                          Some (meterToNm env (distanceMeterTo env p (pos (activePos r))))
                        })
                 else Some 0);
              let out = (if nextLegDistance out \<noteq> None
                         then out\<lparr>nextLegDistance := Some distToCurrent\<rparr> else out);
              let fromstart = fromstartLoop activeIsMissed (take (nat routeIndex + 1) (legs r)) 0;
              let fromstart = fromstart - distToCurrent;
              let fromstart = \<bar>fromstart\<bar>;
              let out = (if distFromStart out \<noteq> None
                         then out\<lparr>distFromStart := Some (max fromstart 0)\<rparr> else out);
              let out =
                (if distToDest out \<noteq> None then
                   if \<not> activeIsMissed
                   then out\<lparr>distToDest := Some (max (totalDistance r - fromstart) 0)\<rparr>
                   else out\<lparr>distToDest :=
                          Some \<bar>missedLoop (drop (nat routeIndex + 1) (legs r)) 0 + distToCurrent\<bar>\<rparr>
                 else out);
              Some (True, out)
            }
          else Some (False, out)
        })"

text \<open>The loop \<^verbatim>\<open>for(int i = 1; i < leg; i++)\<close> of \<^verbatim>\<open>getDistanceFromStart\<close>.\<close>

fun fromstartMeterLoop :: "'p Env \<Rightarrow> 'p RouteLeg list \<Rightarrow> real \<Rightarrow> real" where
  "fromstartMeterLoop env [] fromstart = fromstart"
| "fromstartMeterLoop env (leg # rest) fromstart =
     (if \<not> isMissed (procedureLeg leg)
      then fromstartMeterLoop env rest (fromstart + nmToMeter env (distanceTo leg))
      else fromstart)"

definition getDistanceFromStart :: "'p Env \<Rightarrow> 'p Route \<Rightarrow> 'p \<Rightarrow> real" where
  "getDistanceFromStart env r p =
     (case getNearestRouteLegResult env r p (LineDistance_new env) False of
        (leg, result) \<Rightarrow>
          let distFromStart =
                (if leg < INVALID_INDEX_VALUE \<and> status result = ALONG_TRACK then
                   let fromstart = fromstartMeterLoop env (drop 1 (take (nat leg) (legs r))) 0;
                       fromstart = fromstart + distanceFrom1 result;
                       fromstart = \<bar>fromstart\<bar>
                   in max fromstart 0
                 else INVALID_DISTANCE_VALUE)
          in meterToNm env distFromStart)"

text \<open>
  The search loop of \<^verbatim>\<open>positionAtDistance\<close>; it returns the running
  \<^verbatim>\<open>total\<close> and \<^verbatim>\<open>foundIndex\<close>, the "no index" sentinel when it runs to the end
  without a \<^verbatim>\<open>break\<close>.
\<close>

function findLegLoop :: "'p Route \<Rightarrow> real \<Rightarrow> nat \<Rightarrow> real \<Rightarrow> real \<times> int" where
  "findLegLoop r distFromStartNm i tot =
     (if int i < size_legs r - 1 then
        let tot = tot + distanceTo (legs r ! (i + 1))
        in if tot > distFromStartNm then (tot, int i)
           else findLegLoop r distFromStartNm (i + 1) tot
      else (tot, INVALID_INDEX_VALUE))"
  by pat_completeness auto
termination
  by (relation "measure (\<lambda>(r, d, i, tot). length (legs r) - i)") (auto simp: size_legs_def)

declare findLegLoop.simps [simp del]

definition positionAtDistance :: "'p Env \<Rightarrow> 'p Route \<Rightarrow> real \<Rightarrow> 'p option" where
  "positionAtDistance env r distFromStartNm =
     (if distFromStartNm < 0 \<or> distFromStartNm > totalDistance r then Some (EMPTY_POS env)
      else
        case findLegLoop r distFromStartNm 0 0 of
          (tot, foundIndex) \<Rightarrow>
            if foundIndex < size_legs r - 1 then
              do {
                let foundIndex = foundIndex + 1;
                found \<leftarrow> at_leg r foundIndex;
                if length (legGeometry found) > 2 then
                  let base = distFromStartNm - (tot - calculatedDistance (procedureLeg found));
                      fraction = base / calculatedDistance (procedureLeg found)
                  in Some (LineString_interpolate env (legGeometry found) fraction)
                else
                  do {
                    let base = distFromStartNm - (tot - distanceTo found);
                    let fraction = base / distanceTo found;
                    p1 \<leftarrow> getPositionAt r (foundIndex - 1);
                    p2 \<leftarrow> getPositionAt r foundIndex;
                    Some (Pos_interpolate env p1 p2 fraction)
                  }
              }
            else Some (Pos_new env))"

section \<open>Distance and course updater\<close>




text \<open>
  \<^verbatim>\<open>isAirportAfterArrival(index)\<close>: the leg is read only when the first two operands
  of \<^verbatim>\<open>&&\<close> hold.
\<close>

definition isAirportAfterArrival :: "'p Route \<Rightarrow> int \<Rightarrow> bool option" where
  "isAirportAfterArrival r index =
     (if hasAnyArrivalProcedure r \<and> index = size_legs r - 1
      then map_option (\<lambda>leg. mapObjectType leg = {AIRPORT}) (at_leg r index)
      else Some False)"

text \<open>
  The loop of \<^verbatim>\<open>updateDistancesAndCourse\<close> from index \<open>i\<close> on; \<open>lastLeg\<close> is the
  pointer \<^verbatim>\<open>last\<close> to the leg updated in the previous round, \<open>None\<close> for \<^verbatim>\<open>nullptr\<close>.
\<close>

function updateDistancesLoop ::
  "'p Env \<Rightarrow> nat \<Rightarrow> 'p RouteLeg option \<Rightarrow> 'p Route \<Rightarrow> 'p Route option" where
  "updateDistancesLoop env i lastLeg r =
     (if i < length (legs r) then
        (case isAirportAfterArrival r (int i) of
           None \<Rightarrow> None
         | Some True \<Rightarrow> Some r
         | Some False \<Rightarrow>
             let leg = leg_updateDistanceAndCourse env (int i) lastLeg (legs r ! i) in
             updateDistancesLoop env (i + 1) (Some leg)
               (r\<lparr>legs := (legs r)[i := leg],
                  totalDistance := (if \<not> isMissed (procedureLeg leg)
                                    then totalDistance r + distanceTo leg
                                    else totalDistance r)\<rparr>))
      else Some r)"
  by pat_completeness auto
termination
  by (relation "measure (\<lambda>(env, i, lastLeg, r). length (legs r) - i)") auto

declare updateDistancesLoop.simps [simp del]

definition updateDistancesAndCourse :: "'p Env \<Rightarrow> 'p Route \<Rightarrow> 'p Route option" where
  "updateDistancesAndCourse env r = updateDistancesLoop env 0 None (r\<lparr>totalDistance := 0\<rparr>)"




section \<open>A one-dimensional instance for the examples\<close>

text \<open>
  The examples below run the route functions on a straight line: a position is its
  coordinate in metres, the largest \<^verbatim>\<open>float\<close> is the invalid position, a point between
  the two ends of a segment is along track at cross-track distance 0, and a point
  outside is before the start or after the end at the distance to the nearer end.
  One nautical mile is 1852 metres.
\<close>

definition lineDistanceMeterToLine :: "real \<Rightarrow> real \<Rightarrow> real \<Rightarrow> LineDistance" where
  "lineDistanceMeterToLine p a b =
     \<lparr>status = (if min a b \<le> p \<and> p \<le> max a b then ALONG_TRACK
                else if \<bar>p - a\<bar> \<le> \<bar>p - b\<bar> then BEFORE_START else AFTER_END),
      distance = (if min a b \<le> p \<and> p \<le> max a b then 0 else min \<bar>p - a\<bar> \<bar>p - b\<bar>),
      distanceFrom1 = \<bar>p - a\<bar>,
      distanceFrom2 = \<bar>p - b\<bar>\<rparr>"

definition lineEnv :: "real Env" where
  "lineEnv =
     \<lparr>Pos_new = INVALID_DISTANCE_VALUE,
      EMPTY_POS = INVALID_DISTANCE_VALUE,
      Pos_isValid = (\<lambda>p. p < INVALID_DISTANCE_VALUE),
      Pos_eq = (\<lambda>p q. p = q),
      PosCourse_new = \<lparr>pos = INVALID_DISTANCE_VALUE, course = INVALID_DISTANCE_VALUE\<rparr>,
      PosCourse_isValid = (\<lambda>pc. pos pc < INVALID_DISTANCE_VALUE),
      LineDistance_new = \<lparr>status = INVALID, distance = 0, distanceFrom1 = 0, distanceFrom2 = 0\<rparr>,
      distanceMeterTo = (\<lambda>p q. \<bar>q - p\<bar>),
      distanceMeterToLine = lineDistanceMeterToLine,
      Line_distanceMeterToLine = (\<lambda>l p. lineDistanceMeterToLine p (pos1 l) (pos2 l)),
      distanceMeterToLineString = (\<lambda>g p. lineDistanceMeterToLine p (hd g) (last g)),
      angleDegTo = (\<lambda>p q. if p \<le> q then 90 else 270),
      Pos_interpolate = (\<lambda>p q f. p + (q - p) * f),
      LineString_interpolate = (\<lambda>g f. hd g + (last g - hd g) * f),
      nmToMeter = (\<lambda>x. x * 1852),
      meterToNm = (\<lambda>x. x / 1852),
      normalizeCourse = (\<lambda>c. c),
      atools_mod = (\<lambda>x y. x - y * of_int \<lfloor>x / y\<rfloor>),
      NAV_MAGVAR = {AIRPORT, VOR, NDB, WAYPOINT},
      fromLineString = (\<lambda>ps. (0, 0, 0, 0)),
      leg_updateMagvar = (\<lambda>leg. leg),
      leg_updateInvalidMagvar = (\<lambda>i r leg. leg),
      leg_updateDistanceAndCourse =
        (\<lambda>i lastLeg leg.
           leg\<lparr>distanceTo := (case lastLeg of None \<Rightarrow> 0
                               | Some l \<Rightarrow> \<bar>position leg - position l\<bar> / 1852)\<rparr>)\<rparr>"

definition noProcedureLeg :: "real MapProcedureLeg" where
  "noProcedureLeg =
     \<lparr>legType = OTHER_LEG_TYPE 0, line = \<lparr>pos1 = 0, pos2 = 0\<rparr>, holdLine = \<lparr>pos1 = 0, pos2 = 0\<rparr>,
      turnDirection = [], calculatedDistance = 0, geometry = [],
      isHold = False, isMissed = False, isAnyDeparture = False, isAnyStar = False,
      isArrival = False\<rparr>"

definition routeLegAt :: "real \<Rightarrow> real \<Rightarrow> real RouteLeg" where
  "routeLegAt p d =
     \<lparr>position = p, procedureLeg = noProcedureLeg, mapObjectType = {WAYPOINT}, distanceTo = d,
      legGeometry = [], isAnyProcedure = False, flightplanEntryIndex = 0\<rparr>"

definition routeOf :: "real RouteLeg list \<Rightarrow> real Route" where
  "routeOf ls =
     \<lparr>legs = ls, totalDistance = 0, shownTypes = {}, boundingRect = (0, 0, 0, 0),
      activePos = \<lparr>pos = INVALID_DISTANCE_VALUE, course = INVALID_DISTANCE_VALUE\<rparr>,
      trueCourse = False, arrivalLegs = [], starLegs = [], departureLegs = [],
      departureLegsOffset = INVALID_INDEX_VALUE, starLegsOffset = INVALID_INDEX_VALUE,
      arrivalLegsOffset = INVALID_INDEX_VALUE, activeLeg = INVALID_INDEX_VALUE,
      activeLegResult = \<lparr>status = INVALID, distance = INVALID_DISTANCE_VALUE,
                         distanceFrom1 = INVALID_DISTANCE_VALUE,
                         distanceFrom2 = INVALID_DISTANCE_VALUE\<rparr>\<rparr>"

definition threeLegRoute :: "real Route" where
  "threeLegRoute =
     (routeOf [routeLegAt 0 0, routeLegAt 18520 10, routeLegAt 37040 10])\<lparr>totalDistance := 20\<rparr>"

definition pointRoute :: "real Route" where
  "pointRoute = routeOf [routeLegAt 5 0]"

text \<open>Four legs; the third is the first leg of a STAR and a hold.\<close>

definition starRoute :: "real Route" where
  "starRoute =
     (routeOf [routeLegAt 0 0,
               routeLegAt 18520 10,
               (routeLegAt 37040 10)\<lparr>procedureLeg := noProcedureLeg\<lparr>isAnyStar := True, isHold := True\<rparr>,
                                     isAnyProcedure := True\<rparr>,
               routeLegAt 55560 10])
       \<lparr>starLegs := [noProcedureLeg\<lparr>isAnyStar := True\<rparr>], starLegsOffset := 2,
        totalDistance := 30, activeLeg := 1\<rparr>"

text \<open>
  Five legs with an arrival procedure: an approach leg, a missed-approach leg and the
  destination airport appended after the procedure.
\<close>

definition arrivalRoute :: "real Route" where
  "arrivalRoute =
     (routeOf [routeLegAt 0 0,
               routeLegAt 18520 0,
               (routeLegAt 37040 0)\<lparr>procedureLeg := noProcedureLeg\<lparr>isArrival := True\<rparr>,
                                    isAnyProcedure := True\<rparr>,
               (routeLegAt 46300 0)\<lparr>procedureLeg := noProcedureLeg\<lparr>isArrival := True, isMissed := True\<rparr>,
                                    isAnyProcedure := True\<rparr>,
               (routeLegAt 37040 0)\<lparr>mapObjectType := {AIRPORT}\<rparr>])
       \<lparr>arrivalLegs := [noProcedureLeg\<lparr>isArrival := True\<rparr>,
                        noProcedureLeg\<lparr>isArrival := True, isMissed := True\<rparr>],
        arrivalLegsOffset := 2\<rparr>"

text \<open>Four legs; the second is the single leg of a departure procedure.\<close>

definition departureRoute :: "real Route" where
  "departureRoute =
     (routeOf [routeLegAt 0 0,
               (routeLegAt 1000 0)\<lparr>procedureLeg := noProcedureLeg\<lparr>isAnyDeparture := True\<rparr>,
                                   isAnyProcedure := True\<rparr>,
               routeLegAt 2000 0,
               routeLegAt 3000 0])
       \<lparr>departureLegs := [noProcedureLeg\<lparr>isAnyDeparture := True\<rparr>], departureLegsOffset := 1\<rparr>"

section \<open>Notions for the statements\<close>

text \<open>
  The line distance from a point to the segment between the legs \<open>i - 1\<close> and \<open>i\<close>, which
  both locators compute in their loops, and the invariant of the loop of
  \<^verbatim>\<open>nearestAllLegIndex\<close> after the indices below \<open>n\<close>: either nothing was kept and
  every valid result so far is as large as the sentinel, or the kept index is the first
  one with the least absolute distance among the valid results so far.
\<close>

definition segmentDistance :: "'p Env \<Rightarrow> 'p Route \<Rightarrow> 'p \<Rightarrow> nat \<Rightarrow> LineDistance" where
  "segmentDistance env r p i =
     distanceMeterToLine env p (position (legs r ! (i - 1))) (position (legs r ! i))"

definition scanInv :: "'p Env \<Rightarrow> 'p Route \<Rightarrow> 'p \<Rightarrow> nat \<Rightarrow> real \<times> real \<times> int \<Rightarrow> bool" where
  "scanInv env r p n st =
     (case st of (m, c, idx) \<Rightarrow>
        (idx = INVALID_INDEX_VALUE \<and> m = INVALID_DISTANCE_VALUE \<and> c = INVALID_DISTANCE_VALUE \<and>
         (\<forall>i. 1 \<le> i \<and> i < n \<and> status (segmentDistance env r p i) \<noteq> INVALID \<longrightarrow>
              INVALID_DISTANCE_VALUE \<le> \<bar>distance (segmentDistance env r p i)\<bar>)) \<or>
        (\<exists>k. 1 \<le> k \<and> k < n \<and> idx = int k \<and> c = distance (segmentDistance env r p k) \<and>
             m = \<bar>c\<bar> \<and> status (segmentDistance env r p k) \<noteq> INVALID \<and> m < INVALID_DISTANCE_VALUE \<and>
             (\<forall>i. 1 \<le> i \<and> i < n \<and> status (segmentDistance env r p i) \<noteq> INVALID \<longrightarrow>
                  m \<le> \<bar>distance (segmentDistance env r p i)\<bar>) \<and>
             (\<forall>i. 1 \<le> i \<and> i < k \<and> status (segmentDistance env r p i) \<noteq> INVALID \<longrightarrow>
                  m < \<bar>distance (segmentDistance env r p i)\<bar>)))"

text \<open>
  The loop state of \<^verbatim>\<open>getNearestRouteLegResult\<close> read as a loop state of
  \<^verbatim>\<open>nearestAllLegIndex\<close>: with \<^verbatim>\<open>ignoreNotEditable\<close> false the two loops make the same
  comparisons.
\<close>

definition scanState :: "LineDistance \<times> int \<Rightarrow> real \<times> real \<times> int" where
  "scanState st = (case st of (minResult, index) \<Rightarrow> (\<bar>distance minResult\<bar>, distance minResult, index))"

section \<open>Editing rule: theorems\<close>

text \<open>
  C3, as the code has it: \<open>canEditLeg r i\<close> is false when a departure block exists and
  \<open>i\<close> lies before its end (offset plus number of departure legs), false when a STAR
  block exists and \<open>i\<close> lies strictly after the STAR start offset, false when an arrival
  block exists and \<open>i\<close> lies strictly after the arrival start offset, and true in every
  other case. The index equal to the STAR or arrival start offset is therefore editable
  unless one of the other two rules excludes it. The hypothesis keeps the sum of offset
  and number of departure legs, which the code forms in an \<^verbatim>\<open>int\<close>, within its range.
\<close>

theorem canEditLeg_strictly_after_offsets:
  assumes "hasAnyDepartureProcedure r \<Longrightarrow>
             departureLegsOffset r + int (length (departureLegs r)) \<le> INVALID_INDEX_VALUE"
  shows "canEditLeg r i =
     (\<not> (hasAnyDepartureProcedure r \<and> i < departureLegsOffset r + int (length (departureLegs r))) \<and>
      \<not> (hasAnyStarProcedure r \<and> i > starLegsOffset r) \<and>
      \<not> (hasAnyArrivalProcedure r \<and> i > arrivalLegsOffset r))"
  by (simp add: canEditLeg_def)

theorem canEditLeg_strictly_after_offsets_witness:
  "hasAnyDepartureProcedure departureRoute \<and>
   departureLegsOffset departureRoute + int (length (departureLegs departureRoute)) \<le> INVALID_INDEX_VALUE \<and>
   \<not> canEditLeg departureRoute 1 \<and> canEditLeg departureRoute 2 \<and>
   canEditLeg starRoute 2 \<and> \<not> canEditLeg starRoute 3"
proof -
  have d: "hasAnyDepartureProcedure departureRoute"
    by (simp add: hasAnyDepartureProcedure_def departureRoute_def routeOf_def)
  have b: "departureLegsOffset departureRoute + int (length (departureLegs departureRoute))
             \<le> INVALID_INDEX_VALUE"
    by (simp add: departureRoute_def routeOf_def INVALID_INDEX_VALUE_def)
  have s: "\<not> hasAnyDepartureProcedure starRoute"
    by (simp add: hasAnyDepartureProcedure_def starRoute_def routeOf_def)
  from canEditLeg_strictly_after_offsets [of departureRoute 1, OF b]
       canEditLeg_strictly_after_offsets [of departureRoute 2, OF b]
       canEditLeg_strictly_after_offsets [of starRoute 2]
       canEditLeg_strictly_after_offsets [of starRoute 3] d b s
  show ?thesis
    by (simp add: starRoute_def departureRoute_def routeOf_def hasAnyDepartureProcedure_def
          hasAnyStarProcedure_def hasAnyArrivalProcedure_def)
qed

text \<open>
  C3 as stated fails: in \<open>starRoute\<close> a STAR block exists and starts at index 2, and
  index 2 is editable.
\<close>

theorem canEditLeg_at_star_offset_counterexample:
  "hasAnyStarProcedure starRoute \<and> starLegsOffset starRoute \<le> 2 \<and> canEditLeg starRoute 2"
  by (simp add: canEditLeg_def starRoute_def routeOf_def hasAnyDepartureProcedure_def
        hasAnyStarProcedure_def hasAnyArrivalProcedure_def)

section \<open>Active leg: theorems\<close>

text \<open>
  C10: \<open>getActiveLegIndexCorrected\<close> returns the sentinel and leaves \<^verbatim>\<open>*corrected\<close> alone
  when there is no active leg; otherwise it returns the active leg index itself and
  stores \<^verbatim>\<open>false\<close> in \<^verbatim>\<open>*corrected\<close> (when the pointer is not null). The branch returning
  \<open>activeLeg + 1\<close> is never taken, and no leg is read.
\<close>

theorem getActiveLegIndexCorrected_never_corrects:
  "getActiveLegIndexCorrected r corrected =
     Some (if activeLeg r = INVALID_INDEX_VALUE then (INVALID_INDEX_VALUE, corrected)
           else (activeLeg r, map_option (\<lambda>_. False) corrected))"
  by (simp add: getActiveLegIndexCorrected_def Let_def)

theorem getActiveLegIndexCorrected_never_corrects_witness:
  "getActiveLegIndexCorrected starRoute (Some True) = Some (1, Some False) \<and>
   getActiveLegIndexCorrected pointRoute (Some True) = Some (INVALID_INDEX_VALUE, Some True)"
  using getActiveLegIndexCorrected_never_corrects [of starRoute "Some True"]
        getActiveLegIndexCorrected_never_corrects [of pointRoute "Some True"]
  by (simp add: starRoute_def pointRoute_def routeOf_def INVALID_INDEX_VALUE_def)




section \<open>Distance reporter: theorems\<close>

lemma getRouteDistances_not_false:
  assumes "activeLeg r \<noteq> INVALID_INDEX_VALUE"
  shows "getRouteDistances env r out \<noteq> Some (False, out')"
  using assms
  by (auto simp: getRouteDistances_def Let_def Option.bind_eq_Some_conv split: option.splits if_splits)

lemma getRouteDistances_true:
  assumes "activeLeg r \<noteq> INVALID_INDEX_VALUE" "0 \<le> activeLeg r" "activeLeg r < size_legs r"
  shows "\<exists>out'. getRouteDistances env r out = Some (True, out')"
  using assms
  by (simp add: getRouteDistances_def Let_def at_leg_def getPositionAt_def split: option.splits)

text \<open>
  C4: \<open>getRouteDistances\<close> returns \<^verbatim>\<open>false\<close> exactly when the active leg is the "no index"
  sentinel, and then it leaves all four output parameters as they were. When the active
  leg is an index of the list it returns \<^verbatim>\<open>true\<close>. (For any other value of the active leg
  the first read \<^verbatim>\<open>at(activeLeg)\<close> is outside the list.)
\<close>

theorem getRouteDistances_false_iff_no_active_leg:
  "(activeLeg r = INVALID_INDEX_VALUE \<longrightarrow> getRouteDistances env r out = Some (False, out)) \<and>
   (activeLeg r \<noteq> INVALID_INDEX_VALUE \<longrightarrow> (\<forall>out'. getRouteDistances env r out \<noteq> Some (False, out'))) \<and>
   (activeLeg r \<noteq> INVALID_INDEX_VALUE \<and> 0 \<le> activeLeg r \<and> activeLeg r < size_legs r \<longrightarrow>
      (\<exists>out'. getRouteDistances env r out = Some (True, out')))"
  using getRouteDistances_not_false [of r env out] getRouteDistances_true [of r env out]
  by (simp add: getRouteDistances_def)

theorem getRouteDistances_false_iff_no_active_leg_witness:
  "getRouteDistances lineEnv pointRoute
     \<lparr>distFromStart = Some 1, distToDest = Some 2, nextLegDistance = Some 3, crossTrackDistance = Some 4\<rparr> =
     Some (False, \<lparr>distFromStart = Some 1, distToDest = Some 2, nextLegDistance = Some 3,
                   crossTrackDistance = Some 4\<rparr>) \<and>
   activeLeg pointRoute = INVALID_INDEX_VALUE \<and>
   activeLeg starRoute \<noteq> INVALID_INDEX_VALUE \<and> 0 \<le> activeLeg starRoute \<and>
   activeLeg starRoute < size_legs starRoute \<and>
   (\<exists>out'. getRouteDistances lineEnv starRoute
      \<lparr>distFromStart = Some 1, distToDest = Some 2, nextLegDistance = Some 3, crossTrackDistance = Some 4\<rparr> =
      Some (True, out'))"
  using getRouteDistances_false_iff_no_active_leg [of pointRoute lineEnv
          "\<lparr>distFromStart = Some 1, distToDest = Some 2, nextLegDistance = Some 3, crossTrackDistance = Some 4\<rparr>"]
        getRouteDistances_false_iff_no_active_leg [of starRoute lineEnv
          "\<lparr>distFromStart = Some 1, distToDest = Some 2, nextLegDistance = Some 3, crossTrackDistance = Some 4\<rparr>"]
  by (simp add: pointRoute_def starRoute_def routeOf_def size_legs_def INVALID_INDEX_VALUE_def)

section \<open>Nearest-leg locator: theorems\<close>

lemma scanInv_step:
  assumes "scanInv env r p n st" "1 \<le> n"
  shows "scanInv env r p (Suc n) (nearestAllLegStep env r p n st)"
proof -
  obtain m c idx where st: "st = (m, c, idx)" by (cases st)
  let ?res = "segmentDistance env r p n"
  have step: "nearestAllLegStep env r p n st =
      (if status ?res \<noteq> INVALID \<and> \<bar>distance ?res\<bar> < m then (\<bar>distance ?res\<bar>, distance ?res, int n)
       else (m, c, idx))"
    by (simp add: nearestAllLegStep_def st segmentDistance_def Let_def)
  show ?thesis
  proof (cases "status ?res \<noteq> INVALID \<and> \<bar>distance ?res\<bar> < m")
    case True
    have mle: "m \<le> INVALID_DISTANCE_VALUE"
      using assms(1) by (auto simp: scanInv_def st)
    have lower: "\<forall>i. 1 \<le> i \<and> i < n \<and> status (segmentDistance env r p i) \<noteq> INVALID \<longrightarrow>
                  m \<le> \<bar>distance (segmentDistance env r p i)\<bar>"
      using assms(1) by (auto simp: scanInv_def st)
    have "\<forall>i. 1 \<le> i \<and> i < Suc n \<and> status (segmentDistance env r p i) \<noteq> INVALID \<longrightarrow>
                  \<bar>distance ?res\<bar> \<le> \<bar>distance (segmentDistance env r p i)\<bar>"
    proof (intro allI impI)
      fix i assume i: "1 \<le> i \<and> i < Suc n \<and> status (segmentDistance env r p i) \<noteq> INVALID"
      show "\<bar>distance ?res\<bar> \<le> \<bar>distance (segmentDistance env r p i)\<bar>"
      proof (cases "i = n")
        case True then show ?thesis by simp
      next
        case False
        with i have "i < n" by simp
        with i lower have "m \<le> \<bar>distance (segmentDistance env r p i)\<bar>" by blast
        with True show ?thesis by linarith
      qed
    qed
    moreover have "\<forall>i. 1 \<le> i \<and> i < n \<and> status (segmentDistance env r p i) \<noteq> INVALID \<longrightarrow>
                  \<bar>distance ?res\<bar> < \<bar>distance (segmentDistance env r p i)\<bar>"
      using lower True by (meson less_le_trans)
    moreover have step': "nearestAllLegStep env r p n st = (\<bar>distance ?res\<bar>, distance ?res, int n)"
      using step True by simp
    moreover have "\<bar>distance ?res\<bar> < INVALID_DISTANCE_VALUE"
      using True mle by linarith
    ultimately show ?thesis
      using True assms(2)
      by (simp only: step' scanInv_def prod.case) (intro disjI2 exI [of _ n], simp)
  next
    case False
    then have step': "nearestAllLegStep env r p n st = (m, c, idx)"
      using step by simp
    have nle: "status ?res \<noteq> INVALID \<Longrightarrow> m \<le> \<bar>distance ?res\<bar>"
      using False by auto
    from assms(1) consider
        (none) "idx = INVALID_INDEX_VALUE" "m = INVALID_DISTANCE_VALUE" "c = INVALID_DISTANCE_VALUE"
          "\<forall>i. 1 \<le> i \<and> i < n \<and> status (segmentDistance env r p i) \<noteq> INVALID \<longrightarrow>
              INVALID_DISTANCE_VALUE \<le> \<bar>distance (segmentDistance env r p i)\<bar>"
      | (found) k where "1 \<le> k" "k < n" "idx = int k" "c = distance (segmentDistance env r p k)"
          "m = \<bar>c\<bar>" "status (segmentDistance env r p k) \<noteq> INVALID" "m < INVALID_DISTANCE_VALUE"
          "\<forall>i. 1 \<le> i \<and> i < n \<and> status (segmentDistance env r p i) \<noteq> INVALID \<longrightarrow>
              m \<le> \<bar>distance (segmentDistance env r p i)\<bar>"
          "\<forall>i. 1 \<le> i \<and> i < k \<and> status (segmentDistance env r p i) \<noteq> INVALID \<longrightarrow>
              m < \<bar>distance (segmentDistance env r p i)\<bar>"
      unfolding scanInv_def st by (simp only: prod.case) blast
    then show ?thesis
    proof cases
      case none
      have "\<forall>i. 1 \<le> i \<and> i < Suc n \<and> status (segmentDistance env r p i) \<noteq> INVALID \<longrightarrow>
              INVALID_DISTANCE_VALUE \<le> \<bar>distance (segmentDistance env r p i)\<bar>"
      proof (intro allI impI)
        fix i assume i: "1 \<le> i \<and> i < Suc n \<and> status (segmentDistance env r p i) \<noteq> INVALID"
        show "INVALID_DISTANCE_VALUE \<le> \<bar>distance (segmentDistance env r p i)\<bar>"
        proof (cases "i = n")
          case True with i nle none(2) show ?thesis by simp
        next
          case False with i have "i < n" by simp
          with i none(4) show ?thesis by blast
        qed
      qed
      with none show ?thesis
        by (simp only: step' scanInv_def prod.case) (intro disjI1, simp)
    next
      case found
      have "\<forall>i. 1 \<le> i \<and> i < Suc n \<and> status (segmentDistance env r p i) \<noteq> INVALID \<longrightarrow>
              m \<le> \<bar>distance (segmentDistance env r p i)\<bar>"
      proof (intro allI impI)
        fix i assume i: "1 \<le> i \<and> i < Suc n \<and> status (segmentDistance env r p i) \<noteq> INVALID"
        show "m \<le> \<bar>distance (segmentDistance env r p i)\<bar>"
        proof (cases "i = n")
          case True with i nle show ?thesis by simp
        next
          case False with i have "i < n" by simp
          with i found(8) show ?thesis by blast
        qed
      qed
      with found show ?thesis
        by (simp only: step' scanInv_def prod.case) (intro disjI2 exI [of _ k], simp)
    qed
  qed
qed

lemma scanInv_fold:
  "scanInv env r p n
     (fold (nearestAllLegStep env r p) [1..<n]
        (INVALID_DISTANCE_VALUE, INVALID_DISTANCE_VALUE, INVALID_INDEX_VALUE))"
proof (induction n)
  case 0
  show ?case by (simp add: scanInv_def)
next
  case (Suc n)
  show ?case
  proof (cases "1 \<le> n")
    case True
    then have "[1..<Suc n] = [1..<n] @ [n]" by simp
    with scanInv_step [OF Suc True] show ?thesis by simp
  next
    case False
    then show ?thesis by (simp add: scanInv_def)
  qed
qed


text \<open>
  C6: for an invalid sample \<open>nearestAllLegIndex\<close> returns the two sentinels. For a valid
  sample it scans the segments \<open>(i - 1, i)\<close> for \<open>1 \<le> i < size\<close> and either returns the
  two sentinels, and then every segment whose result is not classified invalid is
  farther than 100 nautical miles (or as far as the distance sentinel); or it returns
  the signed distance and the index of a segment whose result is not invalid, at most
  100 nautical miles away, of least absolute distance among all results not invalid,
  and the first such. In particular, when every segment with a valid result is more
  than 100 nautical miles away (150, say), both sentinels are returned.
\<close>

theorem nearestAllLegIndex_minimum_within_100nm:
  "(\<not> PosCourse_isValid env pc \<longrightarrow>
      nearestAllLegIndex env r pc = (INVALID_DISTANCE_VALUE, INVALID_INDEX_VALUE)) \<and>
   (PosCourse_isValid env pc \<longrightarrow>
      (nearestAllLegIndex env r pc = (INVALID_DISTANCE_VALUE, INVALID_INDEX_VALUE) \<and>
       (\<forall>i. 1 \<le> i \<and> i < length (legs r) \<and> status (segmentDistance env r (pos pc) i) \<noteq> INVALID \<longrightarrow>
            nmToMeter env 100 < \<bar>distance (segmentDistance env r (pos pc) i)\<bar> \<or>
            INVALID_DISTANCE_VALUE \<le> \<bar>distance (segmentDistance env r (pos pc) i)\<bar>)) \<or>
      (\<exists>k. 1 \<le> k \<and> k < length (legs r) \<and>
           nearestAllLegIndex env r pc = (distance (segmentDistance env r (pos pc) k), int k) \<and>
           status (segmentDistance env r (pos pc) k) \<noteq> INVALID \<and>
           \<bar>distance (segmentDistance env r (pos pc) k)\<bar> \<le> nmToMeter env 100 \<and>
           (\<forall>i. 1 \<le> i \<and> i < length (legs r) \<and> status (segmentDistance env r (pos pc) i) \<noteq> INVALID \<longrightarrow>
                \<bar>distance (segmentDistance env r (pos pc) k)\<bar> \<le> \<bar>distance (segmentDistance env r (pos pc) i)\<bar>) \<and>
           (\<forall>i. 1 \<le> i \<and> i < k \<and> status (segmentDistance env r (pos pc) i) \<noteq> INVALID \<longrightarrow>
                \<bar>distance (segmentDistance env r (pos pc) k)\<bar> < \<bar>distance (segmentDistance env r (pos pc) i)\<bar>))) \<and>
   ((\<forall>i. 1 \<le> i \<and> i < length (legs r) \<and> status (segmentDistance env r (pos pc) i) \<noteq> INVALID \<longrightarrow>
         nmToMeter env 100 < \<bar>distance (segmentDistance env r (pos pc) i)\<bar>) \<longrightarrow>
      nearestAllLegIndex env r pc = (INVALID_DISTANCE_VALUE, INVALID_INDEX_VALUE))"
proof -
  let ?n = "length (legs r)"
  let ?d = "\<lambda>i. distance (segmentDistance env r (pos pc) i)"
  let ?v = "\<lambda>i. status (segmentDistance env r (pos pc) i) \<noteq> INVALID"
  obtain m c idx where f: "fold (nearestAllLegStep env r (pos pc)) [1..<?n]
        (INVALID_DISTANCE_VALUE, INVALID_DISTANCE_VALUE, INVALID_INDEX_VALUE) = (m, c, idx)"
    by (metis prod_cases3)
  have res: "PosCourse_isValid env pc \<Longrightarrow> nearestAllLegIndex env r pc =
      (if c < INVALID_DISTANCE_VALUE then
         if \<bar>c\<bar> > nmToMeter env 100 then (INVALID_DISTANCE_VALUE, INVALID_INDEX_VALUE) else (c, idx)
       else (c, idx))"
    unfolding nearestAllLegIndex_def f by simp
  have inval: "\<not> PosCourse_isValid env pc \<Longrightarrow>
      nearestAllLegIndex env r pc = (INVALID_DISTANCE_VALUE, INVALID_INDEX_VALUE)"
    by (simp add: nearestAllLegIndex_def)
  from scanInv_fold [of env r "pos pc" ?n] consider
      (none) "idx = INVALID_INDEX_VALUE" "m = INVALID_DISTANCE_VALUE" "c = INVALID_DISTANCE_VALUE"
        "\<forall>i. 1 \<le> i \<and> i < ?n \<and> ?v i \<longrightarrow> INVALID_DISTANCE_VALUE \<le> \<bar>?d i\<bar>"
    | (found) k where "1 \<le> k" "k < ?n" "idx = int k" "c = ?d k" "m = \<bar>c\<bar>" "?v k"
        "m < INVALID_DISTANCE_VALUE"
        "\<forall>i. 1 \<le> i \<and> i < ?n \<and> ?v i \<longrightarrow> m \<le> \<bar>?d i\<bar>"
        "\<forall>i. 1 \<le> i \<and> i < k \<and> ?v i \<longrightarrow> m < \<bar>?d i\<bar>"
    unfolding scanInv_def f by (simp only: prod.case) blast
  then have main: "PosCourse_isValid env pc \<Longrightarrow>
      (nearestAllLegIndex env r pc = (INVALID_DISTANCE_VALUE, INVALID_INDEX_VALUE) \<and>
       (\<forall>i. 1 \<le> i \<and> i < ?n \<and> ?v i \<longrightarrow> nmToMeter env 100 < \<bar>?d i\<bar> \<or> INVALID_DISTANCE_VALUE \<le> \<bar>?d i\<bar>)) \<or>
      (\<exists>k. 1 \<le> k \<and> k < ?n \<and> nearestAllLegIndex env r pc = (?d k, int k) \<and> ?v k \<and>
           \<bar>?d k\<bar> \<le> nmToMeter env 100 \<and>
           (\<forall>i. 1 \<le> i \<and> i < ?n \<and> ?v i \<longrightarrow> \<bar>?d k\<bar> \<le> \<bar>?d i\<bar>) \<and>
           (\<forall>i. 1 \<le> i \<and> i < k \<and> ?v i \<longrightarrow> \<bar>?d k\<bar> < \<bar>?d i\<bar>))"
  proof cases
    case none
    assume "PosCourse_isValid env pc"
    with res none have "nearestAllLegIndex env r pc = (INVALID_DISTANCE_VALUE, INVALID_INDEX_VALUE)"
      by simp
    with none(4) show ?thesis by blast
  next
    case found
    assume valid: "PosCourse_isValid env pc"
    have clt: "c < INVALID_DISTANCE_VALUE" using found(5,7) by linarith
    show ?thesis
    proof (cases "\<bar>c\<bar> > nmToMeter env 100")
      case True
      with res valid clt have "nearestAllLegIndex env r pc = (INVALID_DISTANCE_VALUE, INVALID_INDEX_VALUE)"
        by simp
      moreover have "\<forall>i. 1 \<le> i \<and> i < ?n \<and> ?v i \<longrightarrow> nmToMeter env 100 < \<bar>?d i\<bar>"
        using found(5,8) True by (meson less_le_trans)
      ultimately show ?thesis by blast
    next
      case False
      with res valid clt have "nearestAllLegIndex env r pc = (?d k, int k)"
        using found(3,4) by simp
      moreover have "\<bar>?d k\<bar> \<le> nmToMeter env 100" using False found(4) by simp
      ultimately show ?thesis
        using found by (intro disjI2 exI [of _ k]) simp
    qed
  qed
  have far: "nearestAllLegIndex env r pc = (INVALID_DISTANCE_VALUE, INVALID_INDEX_VALUE)"
    if all: "\<forall>i. 1 \<le> i \<and> i < ?n \<and> ?v i \<longrightarrow> nmToMeter env 100 < \<bar>?d i\<bar>"
  proof (cases "PosCourse_isValid env pc")
    case False
    then show ?thesis by (rule inval)
  next
    case True
    from main [OF True] show ?thesis
    proof (elim disjE exE conjE)
      fix k assume "1 \<le> k" "k < ?n" "?v k" "\<bar>?d k\<bar> \<le> nmToMeter env 100"
      with all have False by (meson not_le)
      then show ?thesis ..
    qed
  qed
  from inval main far show ?thesis by blast
qed

theorem nearestAllLegIndex_minimum_within_100nm_witness:
  "PosCourse_isValid lineEnv \<lparr>pos = 314840, course = 90\<rparr> \<and>
   nearestAllLegIndex lineEnv threeLegRoute \<lparr>pos = 314840, course = 90\<rparr> =
     (INVALID_DISTANCE_VALUE, INVALID_INDEX_VALUE)"
proof -
  let ?pc = "\<lparr>pos = 314840, course = 90\<rparr> :: real PosCourse"
  have valid: "PosCourse_isValid lineEnv ?pc"
    by (simp add: lineEnv_def INVALID_DISTANCE_VALUE_def)
  have far: "\<forall>i. 1 \<le> i \<and> i < length (legs threeLegRoute) \<and>
                 status (segmentDistance lineEnv threeLegRoute (pos ?pc) i) \<noteq> INVALID \<longrightarrow>
               nmToMeter lineEnv 100 < \<bar>distance (segmentDistance lineEnv threeLegRoute (pos ?pc) i)\<bar>"
  proof (intro allI impI)
    fix i
    assume "1 \<le> i \<and> i < length (legs threeLegRoute) \<and>
            status (segmentDistance lineEnv threeLegRoute (pos ?pc) i) \<noteq> INVALID"
    then have "i = 1 \<or> i = 2"
      by (auto simp: threeLegRoute_def routeOf_def)
    then show "nmToMeter lineEnv 100 < \<bar>distance (segmentDistance lineEnv threeLegRoute (pos ?pc) i)\<bar>"
      by (auto simp: segmentDistance_def lineEnv_def threeLegRoute_def routeOf_def routeLegAt_def
            lineDistanceMeterToLine_def)
  qed
  from nearestAllLegIndex_minimum_within_100nm [of lineEnv ?pc threeLegRoute] far valid
  show ?thesis by blast
qed

section \<open>Distance and course updater: theorems\<close>

lemma isAirportAfterArrival_update_other:
  assumes "j \<noteq> i" "j < length (legs r)"
  shows "isAirportAfterArrival (r\<lparr>legs := (legs r)[i := leg], totalDistance := t\<rparr>) (int j) =
         isAirportAfterArrival r (int j)"
proof (cases "int j = size_legs r - 1")
  case True
  then have "nat (size_legs r - 1) = j" by simp
  with assms True show ?thesis
    by (simp add: isAirportAfterArrival_def hasAnyArrivalProcedure_def size_legs_def at_leg_def)
next
  case False
  then show ?thesis
    by (simp add: isAirportAfterArrival_def hasAnyArrivalProcedure_def size_legs_def)
qed

lemma updateDistancesLoop_sum:
  assumes "i \<le> n" "n \<le> length (legs r)"
    and "\<forall>j. i \<le> j \<and> j < n \<longrightarrow> isAirportAfterArrival r (int j) = Some False"
    and "n < length (legs r) \<longrightarrow> isAirportAfterArrival r (int n) = Some True"
  shows "\<exists>r'. updateDistancesLoop env i lastLeg r = Some r' \<and>
           length (legs r') = length (legs r) \<and>
           take i (legs r') = take i (legs r) \<and>
           drop n (legs r') = drop n (legs r) \<and>
           r' = r\<lparr>legs := legs r', totalDistance := totalDistance r'\<rparr> \<and>
           totalDistance r' = totalDistance r +
             sum_list (map distanceTo
               (filter (\<lambda>leg. \<not> isMissed (procedureLeg leg)) (drop i (take n (legs r')))))"
  using assms
proof (induction "n - i" arbitrary: i lastLeg r)
  case 0
  then have "i = n" by simp
  show ?case
  proof (cases "n < length (legs r)")
    case True
    with 0(5) \<open>i = n\<close> have "updateDistancesLoop env i lastLeg r = Some r"
      by (subst updateDistancesLoop.simps) simp
    then show ?thesis using \<open>i = n\<close> by simp
  next
    case False
    with 0(3) \<open>i = n\<close> have "updateDistancesLoop env i lastLeg r = Some r"
      by (subst updateDistancesLoop.simps) simp
    then show ?thesis using \<open>i = n\<close> by simp
  qed
next
  case (Suc k)
  then have lt: "i < n" and ilen: "i < length (legs r)" by simp_all
  define leg where "leg = leg_updateDistanceAndCourse env (int i) lastLeg (legs r ! i)"
  define r1 where "r1 = r\<lparr>legs := (legs r)[i := leg],
                          totalDistance := (if \<not> isMissed (procedureLeg leg)
                                            then totalDistance r + distanceTo leg
                                            else totalDistance r)\<rparr>"
  have notap: "isAirportAfterArrival r (int i) = Some False"
    using Suc.prems(3) lt by simp
  have unfold: "updateDistancesLoop env i lastLeg r = updateDistancesLoop env (i + 1) (Some leg) r1"
    using ilen notap by (subst updateDistancesLoop.simps) (simp add: Let_def leg_def r1_def)
  have len1: "length (legs r1) = length (legs r)" by (simp add: r1_def)
  have h3: "\<forall>j. i + 1 \<le> j \<and> j < n \<longrightarrow> isAirportAfterArrival r1 (int j) = Some False"
  proof (intro allI impI)
    fix j assume j: "i + 1 \<le> j \<and> j < n"
    then have "j \<noteq> i" "j < length (legs r)" using Suc.prems(2) by simp_all
    then have "isAirportAfterArrival r1 (int j) = isAirportAfterArrival r (int j)"
      unfolding r1_def by (rule isAirportAfterArrival_update_other)
    with Suc.prems(3) j show "isAirportAfterArrival r1 (int j) = Some False" by simp
  qed
  have h4: "n < length (legs r1) \<longrightarrow> isAirportAfterArrival r1 (int n) = Some True"
  proof
    assume "n < length (legs r1)"
    then have n: "n < length (legs r)" by (simp add: len1)
    with lt have "isAirportAfterArrival r1 (int n) = isAirportAfterArrival r (int n)"
      unfolding r1_def by (intro isAirportAfterArrival_update_other) simp_all
    with Suc.prems(4) n show "isAirportAfterArrival r1 (int n) = Some True" by simp
  qed
  have k: "k = n - (i + 1)" using Suc.hyps(2) by simp
  from Suc.hyps(1) [OF k _ _ h3 h4, of "Some leg"] lt Suc.prems(2) len1
  obtain r' where r': "updateDistancesLoop env (i + 1) (Some leg) r1 = Some r'"
      "length (legs r') = length (legs r1)"
      "take (i + 1) (legs r') = take (i + 1) (legs r1)"
      "drop n (legs r') = drop n (legs r1)"
      "r' = r1\<lparr>legs := legs r', totalDistance := totalDistance r'\<rparr>"
      "totalDistance r' = totalDistance r1 +
         sum_list (map distanceTo
           (filter (\<lambda>leg. \<not> isMissed (procedureLeg leg)) (drop (i + 1) (take n (legs r')))))"
    by auto
  have ati: "legs r' ! i = leg"
  proof -
    have "legs r' ! i = take (i + 1) (legs r') ! i" by simp
    also have "\<dots> = take (i + 1) (legs r1) ! i" by (simp only: r'(3))
    also have "\<dots> = leg" using ilen by (simp add: r1_def)
    finally show ?thesis .
  qed
  have takei: "take i (legs r') = take i (legs r)"
  proof -
    have "take i (legs r') = take i (take (i + 1) (legs r'))" by (simp add: min_def)
    also have "\<dots> = take i (take (i + 1) (legs r1))" by (simp only: r'(3))
    also have "\<dots> = take i (legs r)" by (simp add: r1_def min_def)
    finally show ?thesis .
  qed
  have dropn: "drop n (legs r') = drop n (legs r)"
    using r'(4) lt by (simp add: r1_def)
  have split: "drop i (take n (legs r')) = leg # drop (i + 1) (take n (legs r'))"
  proof -
    have "i < length (take n (legs r'))" using lt ilen r'(2) len1 by simp
    then have "drop i (take n (legs r')) = take n (legs r') ! i # drop (Suc i) (take n (legs r'))"
      by (rule Cons_nth_drop_Suc [symmetric])
    then show ?thesis using lt ati by simp
  qed
  have tot: "totalDistance r' = totalDistance r +
             sum_list (map distanceTo
               (filter (\<lambda>leg. \<not> isMissed (procedureLeg leg)) (drop i (take n (legs r')))))"
    unfolding split using r'(6) by (simp add: r1_def)
  have frame: "r' = r\<lparr>legs := legs r', totalDistance := totalDistance r'\<rparr>"
    by (subst r'(5)) (simp add: r1_def)
  show ?case
    unfolding unfold using r'(1) r'(2) len1 takei dropn tot frame by simp
qed

lemma updateDistancesAndCourse_stop:
  assumes "n = (if isAirportAfterArrival r (size_legs r - 1) = Some True
                then length (legs r) - 1 else length (legs r))"
  shows "n \<le> length (legs (r\<lparr>totalDistance := 0\<rparr>)) \<and>
         (\<forall>j. 0 \<le> j \<and> j < n \<longrightarrow>
              isAirportAfterArrival (r\<lparr>totalDistance := 0\<rparr>) (int j) = Some False) \<and>
         (n < length (legs (r\<lparr>totalDistance := 0\<rparr>)) \<longrightarrow>
              isAirportAfterArrival (r\<lparr>totalDistance := 0\<rparr>) (int n) = Some True)"
proof -
  let ?r0 = "r\<lparr>totalDistance := 0\<rparr>"
  note n_def = assms
  have same: "isAirportAfterArrival ?r0 j = isAirportAfterArrival r j" for j
    by (simp add: isAirportAfterArrival_def hasAnyArrivalProcedure_def size_legs_def at_leg_def)
  have nle: "n \<le> length (legs ?r0)" by (simp add: n_def)
  have h3: "\<forall>j. 0 \<le> j \<and> j < n \<longrightarrow> isAirportAfterArrival ?r0 (int j) = Some False"
  proof (intro allI impI)
    fix j assume j: "0 \<le> j \<and> j < n"
    show "isAirportAfterArrival ?r0 (int j) = Some False"
    proof (cases "int j = size_legs r - 1")
      case True
      then have jl: "j = length (legs r) - 1" "j < length (legs r)"
        using j nle by (simp_all add: size_legs_def)
      have "isAirportAfterArrival r (size_legs r - 1) \<noteq> Some True"
      proof
        assume "isAirportAfterArrival r (size_legs r - 1) = Some True"
        then have "n = length (legs r) - 1" by (simp add: n_def)
        with j jl show False by simp
      qed
      moreover have "isAirportAfterArrival r (size_legs r - 1) \<noteq> None"
        using jl True by (auto simp: isAirportAfterArrival_def at_leg_def size_legs_def)
      ultimately have "isAirportAfterArrival r (size_legs r - 1) = Some False"
        by (cases "isAirportAfterArrival r (size_legs r - 1)") auto
      with True show ?thesis by (simp add: same)
    next
      case False
      then show ?thesis by (simp add: isAirportAfterArrival_def size_legs_def)
    qed
  qed
  have h4: "n < length (legs ?r0) \<longrightarrow> isAirportAfterArrival ?r0 (int n) = Some True"
  proof
    assume "n < length (legs ?r0)"
    then have t: "isAirportAfterArrival r (size_legs r - 1) = Some True" "n = length (legs r) - 1"
        "0 < length (legs r)"
      by (auto simp: n_def split: if_splits)
    then have "int n = size_legs r - 1" by (cases "legs r") (simp_all add: size_legs_def)
    with t show "isAirportAfterArrival ?r0 (int n) = Some True" by (simp add: same)
  qed
  from nle h3 h4 show ?thesis by blast
qed

text \<open>
  C7: \<open>updateDistancesAndCourse\<close> always returns. Let \<open>n\<close> be the number of legs, less
  one when the last leg is an airport after an arrival procedure (an arrival procedure
  exists, the index is the last one and the map object type is \<^verbatim>\<open>AIRPORT\<close>). Afterwards
  the total distance is the sum of the distances of the first \<open>n\<close> legs that are not
  flagged missed approach, the legs from \<open>n\<close> on are untouched, and nothing but the legs
  and the total distance has changed.
\<close>

theorem updateDistancesAndCourse_total:
  "\<exists>r' n. updateDistancesAndCourse env r = Some r' \<and>
     n = (if isAirportAfterArrival r (size_legs r - 1) = Some True
          then length (legs r) - 1 else length (legs r)) \<and>
     length (legs r') = length (legs r) \<and>
     drop n (legs r') = drop n (legs r) \<and>
     r' = r\<lparr>legs := legs r', totalDistance := totalDistance r'\<rparr> \<and>
     totalDistance r' =
       sum_list (map distanceTo
         (filter (\<lambda>leg. \<not> isMissed (procedureLeg leg)) (take n (legs r'))))"
proof -
  let ?r0 = "r\<lparr>totalDistance := 0\<rparr>"
  define n where "n = (if isAirportAfterArrival r (size_legs r - 1) = Some True
          then length (legs r) - 1 else length (legs r))"
  from updateDistancesAndCourse_stop [OF n_def]
  have nle: "n \<le> length (legs ?r0)"
    and h3: "\<forall>j. 0 \<le> j \<and> j < n \<longrightarrow> isAirportAfterArrival ?r0 (int j) = Some False"
    and h4: "n < length (legs ?r0) \<longrightarrow> isAirportAfterArrival ?r0 (int n) = Some True"
    by blast+
  from updateDistancesLoop_sum [of 0 n ?r0 env None, OF _ nle h3 h4]
  obtain r' where r': "updateDistancesLoop env 0 None ?r0 = Some r'"
      "length (legs r') = length (legs r)" "drop n (legs r') = drop n (legs r)"
      "r' = r\<lparr>legs := legs r', totalDistance := totalDistance r'\<rparr>"
      "totalDistance r' = sum_list (map distanceTo
               (filter (\<lambda>leg. \<not> isMissed (procedureLeg leg)) (take n (legs r'))))"
    by auto
  then show ?thesis
    unfolding updateDistancesAndCourse_def n_def by blast
qed

lemma updateDistancesAndCourse_arrivalRoute: "map_option totalDistance (updateDistancesAndCourse lineEnv arrivalRoute) = Some 20"
  by (simp add: updateDistancesAndCourse_def updateDistancesLoop.simps arrivalRoute_def routeOf_def
        routeLegAt_def noProcedureLeg_def lineEnv_def isAirportAfterArrival_def
        hasAnyArrivalProcedure_def size_legs_def at_leg_def Let_def)

theorem updateDistancesAndCourse_total_witness:
  "\<exists>r'. updateDistancesAndCourse lineEnv arrivalRoute = Some r' \<and> length (legs r') = 5 \<and>
         drop 4 (legs r') = [(routeLegAt 37040 0)\<lparr>mapObjectType := {AIRPORT}\<rparr>] \<and>
         totalDistance r' = 20"
proof -
  have ap: "isAirportAfterArrival arrivalRoute (size_legs arrivalRoute - 1) = Some True"
    by (simp add: isAirportAfterArrival_def hasAnyArrivalProcedure_def size_legs_def at_leg_def
          arrivalRoute_def routeOf_def)
  have len: "length (legs arrivalRoute) = 5"
    by (simp add: arrivalRoute_def routeOf_def)
  from updateDistancesAndCourse_total [of lineEnv arrivalRoute]
  obtain r' where r': "updateDistancesAndCourse lineEnv arrivalRoute = Some r'"
    "length (legs r') = 5" "drop 4 (legs r') = drop 4 (legs arrivalRoute)"
    by (auto simp: ap len)
  from updateDistancesAndCourse_arrivalRoute r'(1) have "totalDistance r' = 20" by simp
  moreover have "drop 4 (legs arrivalRoute) = [(routeLegAt 37040 0)\<lparr>mapObjectType := {AIRPORT}\<rparr>]"
    by (simp add: arrivalRoute_def routeOf_def)
  ultimately show ?thesis using r' by simp
qed

section \<open>Active-leg tracker: theorems\<close>












lemma size_legs_upd [simp]:
  "size_legs (r\<lparr>activeLeg := a\<rparr>) = size_legs r"
  "size_legs (r\<lparr>activePos := p\<rparr>) = size_legs r"
  "size_legs (r\<lparr>activeLegResult := x\<rparr>) = size_legs r"
  by (simp_all add: size_legs_def)

lemma at_leg_upd [simp]:
  "at_leg (r\<lparr>activeLeg := a\<rparr>) i = at_leg r i"
  "at_leg (r\<lparr>activePos := p\<rparr>) i = at_leg r i"
  "at_leg (r\<lparr>activeLegResult := x\<rparr>) i = at_leg r i"
  by (simp_all add: at_leg_def)

lemma getPositionAt_upd [simp]:
  "getPositionAt (r\<lparr>activeLeg := a\<rparr>) i = getPositionAt r i"
  "getPositionAt (r\<lparr>activePos := p\<rparr>) i = getPositionAt r i"
  "getPositionAt (r\<lparr>activeLegResult := x\<rparr>) i = getPositionAt r i"
  by (simp_all add: getPositionAt_def)
















text \<open>
  C8: let \<open>r4\<close> be the route after \<open>updateActiveLegAndPos\<close> has set the active leg, the
  active position and the active-leg result, with a next index inside the list. When
  the active leg is not a hold and the candidate the skip loop arrives at is a hold,
  the decision \<^verbatim>\<open>switchToNextLeg\<close> is exactly that the absolute cross-track distance from
  the sample to the candidate's segment is below 0.5 nautical miles, whatever the course
  difference, the status of either line distance, the distance to the active leg or the
  type of the active leg (the test for a procedure turn comes later in the code).
  \<open>updateActiveLegAndPos\<close> then returns the route with the candidate as active leg and
  the line distance to its segment when the decision is to switch, unless the candidate
  is a missed-approach leg while those are not shown; otherwise it returns \<open>r4\<close>.
\<close>

theorem updateActiveLegAndPos_entering_hold:
  assumes "\<not> isEmpty r" "PosCourse_isValid env pc"
    and "updateActiveLegResult env (initActiveLeg env pc r) = Some r4"
    and "activeLeg r4 + 1 < size_legs r4"
    and "at_leg r4 (activeLeg r4) = Some active" "\<not> isHold (procedureLeg active)"
    and "skipPointLegs env r4 (activeLeg r4 + 1) = Some nextLeg"
    and "at_leg r4 nextLeg = Some nxt" "isHold (procedureLeg nxt)"
    and "getPositionAt r4 (nextLeg - 1) = Some p1"
  shows "activePos r4 = pc \<and>
         (\<forall>courseDiff.
            switchToNextLeg env r4 nextLeg courseDiff
                (distanceMeterToLine env (pos pc) p1 (position nxt)) =
              Some (\<bar>distance (distanceMeterToLine env (pos pc) p1 (position nxt))\<bar>
                      < nmToMeter env 0.5)) \<and>
         tryNextLeg env pc r4 (activeLeg r4 + 1) =
           Some (if \<bar>distance (distanceMeterToLine env (pos pc) p1 (position nxt))\<bar>
                      < nmToMeter env 0.5 \<and>
                    \<not> (MISSED_APPROACH \<notin> shownTypes r4 \<and> isMissed (procedureLeg nxt))
                 then r4\<lparr>activeLeg := nextLeg,
                          activeLegResult := distanceMeterToLine env (pos pc) p1 (position nxt)\<rparr>
                 else r4) \<and>
         updateActiveLegAndPos env pc r = tryNextLeg env pc r4 (activeLeg r4 + 1)"
proof -
  have ap: "activePos r4 = pc"
    using assms(3)
    by (auto simp: updateActiveLegResult_def initActiveLeg_def Let_def Option.bind_eq_Some_conv
          split: if_splits)
  have p2: "getPositionAt r4 nextLeg = Some (position nxt)"
    using assms(8) by (simp add: getPositionAt_def)
  have sw: "switchToNextLeg env r4 nextLeg courseDiff res =
              Some (\<bar>distance res\<bar> < nmToMeter env 0.5)" for courseDiff res
    using assms(5,6,8,9) by (simp add: switchToNextLeg_def)
  have q: "getPositionAt (r4\<lparr>activeLeg := nextLeg\<rparr>) i = getPositionAt r4 i" for i
    by (simp add: getPositionAt_def at_leg_def size_legs_def)
  have t: "tryNextLeg env pc r4 (activeLeg r4 + 1) =
           Some (if \<bar>distance (distanceMeterToLine env (pos pc) p1 (position nxt))\<bar>
                      < nmToMeter env 0.5 \<and>
                    \<not> (MISSED_APPROACH \<notin> shownTypes r4 \<and> isMissed (procedureLeg nxt))
                 then r4\<lparr>activeLeg := nextLeg,
                          activeLegResult := distanceMeterToLine env (pos pc) p1 (position nxt)\<rparr>
                 else r4)"
    unfolding tryNextLeg_def
    using assms(5,6,7,8,10) p2
    apply (simp add: Let_def q sw ap split del: if_split cong: if_cong)
    apply simp
    done
  have u: "updateActiveLegAndPos env pc r = tryNextLeg env pc r4 (activeLeg r4 + 1)"
    using assms(1,2,3,4) by (simp add: updateActiveLegAndPos_def Let_def)
  from ap sw t u show ?thesis by blast
qed


theorem updateActiveLegAndPos_entering_hold_witness:
  "(\<exists>r'. updateActiveLegAndPos lineEnv \<lparr>pos = 18000, course = 90\<rparr> starRoute = Some r' \<and>
         activeLeg r' = 2) \<and>
   (\<exists>r'. updateActiveLegAndPos lineEnv \<lparr>pos = 17000, course = 90\<rparr> starRoute = Some r' \<and>
         activeLeg r' = 1)"
proof -
  let ?nxt = "(routeLegAt 37040 10)\<lparr>procedureLeg := noProcedureLeg\<lparr>isAnyStar := True, isHold := True\<rparr>,
                                      isAnyProcedure := True\<rparr>"
  have ne: "\<not> isEmpty starRoute" by (simp add: isEmpty_def starRoute_def routeOf_def)
  have sz: "size_legs starRoute = 4" by (simp add: size_legs_def starRoute_def routeOf_def)
  have al: "activeLeg starRoute = 1" by (simp add: starRoute_def routeOf_def)
  have w: "\<exists>r'. updateActiveLegAndPos lineEnv \<lparr>pos = x, course = 90\<rparr> starRoute = Some r' \<and>
                activeLeg r' = (if \<bar>distance (lineDistanceMeterToLine x 18520 37040)\<bar> < 926 then 2 else 1)"
    if x: "x < INVALID_DISTANCE_VALUE" for x :: real
  proof -
    let ?pc = "\<lparr>pos = x, course = 90\<rparr> :: real PosCourse"
    let ?r4 = "starRoute\<lparr>activePos := ?pc,
                 activeLegResult := lineDistanceMeterToLine x 0 18520\<rparr>"
    have v: "PosCourse_isValid lineEnv ?pc" using x by (simp add: lineEnv_def)
    have i: "initActiveLeg lineEnv ?pc starRoute = starRoute\<lparr>activePos := ?pc\<rparr>"
      by (simp add: initActiveLeg_def Let_def al sz INVALID_INDEX_VALUE_def)
    have r4: "updateActiveLegResult lineEnv (initActiveLeg lineEnv ?pc starRoute) = Some ?r4"
      by (simp only: i)
         (simp add: updateActiveLegResult_def Let_def size_legs_def getPositionAt_def at_leg_def
            starRoute_def routeOf_def routeLegAt_def lineEnv_def)
    have a4: "activeLeg ?r4 = 1" "size_legs ?r4 = 4"
      by (simp_all add: size_legs_def starRoute_def routeOf_def)
    have lt: "activeLeg ?r4 + 1 < size_legs ?r4" by (simp add: al sz)
    have a: "at_leg ?r4 (activeLeg ?r4) = Some (routeLegAt 18520 10)"
      by (simp add: at_leg_def size_legs_def starRoute_def routeOf_def)
    have na: "\<not> isHold (procedureLeg (routeLegAt 18520 10))"
      by (simp add: routeLegAt_def noProcedureLeg_def)
    have n: "at_leg ?r4 2 = Some ?nxt"
      by (simp add: at_leg_def size_legs_def starRoute_def routeOf_def)
    have sk: "skipPointLegs lineEnv ?r4 (activeLeg ?r4 + 1) = Some 2"
      by (subst skipPointLegs.simps)
         (simp add: at_leg_def size_legs_def starRoute_def routeOf_def getProcedureLegType_def
            routeLegAt_def noProcedureLeg_def)
    have nh: "isHold (procedureLeg ?nxt)" by simp
    have p1: "getPositionAt ?r4 (2 - 1) = Some 18520"
      by (simp add: getPositionAt_def at_leg_def size_legs_def starRoute_def routeOf_def routeLegAt_def)
    from updateActiveLegAndPos_entering_hold [OF ne v r4 lt a na sk n nh p1]
    show ?thesis
      by (simp add: lineEnv_def routeLegAt_def al sz starRoute_def routeOf_def noProcedureLeg_def)
  qed
  from w [of 18000] w [of 17000] show ?thesis
    by (simp add: lineDistanceMeterToLine_def INVALID_DISTANCE_VALUE_def)
qed

section \<open>Position at a distance: theorems\<close>

lemma findLegLoop_first_positive:
  assumes "i < k" "k < length (legs r)"
    and "\<forall>j. i < j \<and> j < k \<longrightarrow> distanceTo (legs r ! j) = 0"
    and "0 < distanceTo (legs r ! k)"
  shows "findLegLoop r 0 i 0 = (distanceTo (legs r ! k), int k - 1)"
  using assms
proof (induction "k - i" arbitrary: i)
  case 0
  then show ?case by simp
next
  case (Suc n)
  have guard: "int i < size_legs r - 1" using Suc.prems(1,2) by (simp add: size_legs_def)
  show ?case
  proof (cases "i + 1 = k")
    case True
    with guard Suc.prems(4) show ?thesis
      by (subst findLegLoop.simps) (auto simp: Let_def)
  next
    case False
    with Suc.prems(1) have lt: "i + 1 < k" by simp
    with Suc.prems(3) have z: "distanceTo (legs r ! (i + 1)) = 0" by simp
    have n: "n = k - (i + 1)" using Suc.hyps(2) by simp
    have "findLegLoop r 0 (i + 1) 0 = (distanceTo (legs r ! k), int k - 1)"
      using Suc.hyps(1) [OF n lt Suc.prems(2) _ Suc.prems(4)] Suc.prems(3) by simp
    with guard z show ?thesis
      by (subst findLegLoop.simps) (simp add: Let_def)
  qed
qed

text \<open>
  C2, as the code has it: for \<open>d < 0\<close> or \<open>d\<close> greater than the total distance,
  \<open>positionAtDistance d\<close> is the empty position. For \<open>d = 0\<close> on a route whose total
  distance is not negative, where leg \<open>k \<ge> 1\<close> is the first leg of positive distance (the
  legs before it have distance 0) and has no more than two geometry points, the result
  is the straight-line interpolation at fraction 0 between the positions of the legs
  \<open>k - 1\<close> and \<open>k\<close>: the start of the first segment that has a length. On a route of at
  most one leg there is no segment, and the result for \<open>d = 0\<close> is a fresh position.
  Nothing is said about \<open>d\<close> equal to the total distance.
\<close>

theorem positionAtDistance_start_and_outside:
  "(d < 0 \<or> d > totalDistance r \<longrightarrow> positionAtDistance env r d = Some (EMPTY_POS env)) \<and>
   (0 \<le> totalDistance r \<and> 1 \<le> k \<and> k < length (legs r) \<and>
    (\<forall>j. 1 \<le> j \<and> j < k \<longrightarrow> distanceTo (legs r ! j) = 0) \<and>
    0 < distanceTo (legs r ! k) \<and> length (legGeometry (legs r ! k)) \<le> 2 \<longrightarrow>
      positionAtDistance env r 0 =
        Some (Pos_interpolate env (position (legs r ! (k - 1))) (position (legs r ! k)) 0)) \<and>
   (0 \<le> totalDistance r \<and> length (legs r) \<le> 1 \<longrightarrow>
      positionAtDistance env r 0 = Some (Pos_new env))"
proof (intro conjI impI)
  assume "d < 0 \<or> d > totalDistance r"
  then show "positionAtDistance env r d = Some (EMPTY_POS env)"
    by (auto simp: positionAtDistance_def)
next
  assume a: "0 \<le> totalDistance r \<and> 1 \<le> k \<and> k < length (legs r) \<and>
    (\<forall>j. 1 \<le> j \<and> j < k \<longrightarrow> distanceTo (legs r ! j) = 0) \<and>
    0 < distanceTo (legs r ! k) \<and> length (legGeometry (legs r ! k)) \<le> 2"
  then have f: "findLegLoop r 0 0 0 = (distanceTo (legs r ! k), int k - 1)"
    by (intro findLegLoop_first_positive) auto
  have at: "at_leg r (int k) = Some (legs r ! k)"
    using a by (simp add: at_leg_def size_legs_def)
  have p1: "getPositionAt r (int k - 1) = Some (position (legs r ! (k - 1)))"
    using a by (simp add: getPositionAt_def at_leg_def size_legs_def nat_diff_distrib)
  have p2: "getPositionAt r (int k) = Some (position (legs r ! k))"
    using at by (simp add: getPositionAt_def)
  have lt: "int k - 1 < size_legs r - 1" using a by (simp add: size_legs_def)
  show "positionAtDistance env r 0 =
        Some (Pos_interpolate env (position (legs r ! (k - 1))) (position (legs r ! k)) 0)"
    using a lt by (simp add: positionAtDistance_def f at p1 p2 Let_def)
next
  assume a: "0 \<le> totalDistance r \<and> length (legs r) \<le> 1"
  then have f: "findLegLoop r 0 0 0 = (0, INVALID_INDEX_VALUE)"
    by (subst findLegLoop.simps) (simp add: size_legs_def)
  have "\<not> INVALID_INDEX_VALUE < size_legs r - 1"
    using a by (simp add: size_legs_def INVALID_INDEX_VALUE_def)
  with a show "positionAtDistance env r 0 = Some (Pos_new env)"
    by (simp add: positionAtDistance_def f)
qed

theorem positionAtDistance_start_and_outside_witness:
  "positionAtDistance lineEnv threeLegRoute 0 = Some 0 \<and>
   positionAtDistance lineEnv threeLegRoute (- 1) = Some (EMPTY_POS lineEnv) \<and>
   positionAtDistance lineEnv threeLegRoute 21 = Some (EMPTY_POS lineEnv)"
proof -
  have h: "0 \<le> totalDistance threeLegRoute \<and> (1::nat) \<le> 1 \<and> 1 < length (legs threeLegRoute) \<and>
    (\<forall>j. 1 \<le> j \<and> j < 1 \<longrightarrow> distanceTo (legs threeLegRoute ! j) = 0) \<and>
    0 < distanceTo (legs threeLegRoute ! 1) \<and> length (legGeometry (legs threeLegRoute ! 1)) \<le> 2"
    by (simp add: threeLegRoute_def routeOf_def routeLegAt_def)
  from positionAtDistance_start_and_outside [of "- 1" threeLegRoute lineEnv 1]
       positionAtDistance_start_and_outside [of "21" threeLegRoute lineEnv 1] h
  show ?thesis
    by (simp add: threeLegRoute_def routeOf_def routeLegAt_def lineEnv_def)
qed

text \<open>
  C2 as stated fails on a point route: its total distance is 0, so the distance 0 is
  inside \<open>[0, total]\<close>, but the search loop has no segment to visit and the function
  returns a fresh, invalid position instead of the position of the first leg.
\<close>

theorem positionAtDistance_point_route_counterexample:
  "totalDistance pointRoute = 0 \<and>
   positionAtDistance lineEnv pointRoute 0 = Some (Pos_new lineEnv) \<and>
   positionAtDistance lineEnv pointRoute 0 \<noteq> Some (position (legs pointRoute ! 0))"
  by (simp add: positionAtDistance_def findLegLoop.simps pointRoute_def routeOf_def routeLegAt_def
        size_legs_def lineEnv_def INVALID_INDEX_VALUE_def INVALID_DISTANCE_VALUE_def)

text \<open>
  The search takes the first leg whose running total is strictly greater than the
  distance asked for. On a route without missed-approach legs the running total never
  exceeds the total distance, so at the total distance itself no leg is found; the
  three-leg route of 20 nautical miles returns the fresh, invalid position there and
  not the position of its last leg.
\<close>

lemma positionAtDistance_at_total_threeLegRoute:
  "totalDistance threeLegRoute = 20 \<and>
   positionAtDistance lineEnv threeLegRoute 20 = Some (Pos_new lineEnv) \<and>
   position (last (legs threeLegRoute)) = 37040"
  by (simp add: positionAtDistance_def findLegLoop.simps threeLegRoute_def routeOf_def routeLegAt_def
        size_legs_def lineEnv_def INVALID_INDEX_VALUE_def INVALID_DISTANCE_VALUE_def Let_def)

section \<open>Distance from start of a position: theorems\<close>

lemma nearestRouteLegStep_scanState:
  "scanState (nearestRouteLegStep env r p False i st) = nearestAllLegStep env r p i (scanState st)"
  by (cases st) (simp add: scanState_def nearestRouteLegStep_def nearestAllLegStep_def Let_def)

lemma fold_nearestRouteLegStep_scanState:
  "scanState (fold (nearestRouteLegStep env r p False) xs st) =
   fold (nearestAllLegStep env r p) xs (scanState st)"
  by (induction xs arbitrary: st) (simp_all add: nearestRouteLegStep_scanState)

lemma fold_nearestRouteLegStep_result:
  assumes "fold (nearestRouteLegStep env r p False) xs (init, INVALID_INDEX_VALUE) = (mr, idx)"
  shows "(idx = INVALID_INDEX_VALUE \<and> mr = init) \<or>
         (\<exists>k. k \<in> set xs \<and> idx = int k \<and> mr = segmentDistance env r p k)"
  using assms
proof (induction xs arbitrary: mr idx rule: rev_induct)
  case Nil
  then show ?case by simp
next
  case (snoc x xs)
  obtain mr0 idx0 where st: "fold (nearestRouteLegStep env r p False) xs (init, INVALID_INDEX_VALUE) = (mr0, idx0)"
    by (metis surj_pair)
  from snoc.prems have step: "nearestRouteLegStep env r p False x (mr0, idx0) = (mr, idx)"
    by (simp add: st)
  from snoc.IH [OF st] step show ?case
    by (auto simp: nearestRouteLegStep_def segmentDistance_def Let_def split: if_splits)
qed

lemma fromstartMeterLoop_sum:
  "fromstartMeterLoop env ls acc =
     acc + sum_list (map (\<lambda>l. nmToMeter env (distanceTo l))
                       (takeWhile (\<lambda>l. \<not> isMissed (procedureLeg l)) ls))"
  by (induction ls arbitrary: acc) simp_all

text \<open>
  C5, as the code has it: \<open>getDistanceFromStart\<close> calls the locator with
  \<^verbatim>\<open>ignoreNotEditable\<close> false. When the locator finds a leg and its result is along track,
  that leg \<open>k\<close> has the least absolute cross-track distance among the results not invalid
  of all segments, editable or not, and the function returns, converted to nautical
  miles, the absolute value of the sum of the distances (converted to metres) of the
  legs \<open>1, ..., k - 1\<close> up to the first missed-approach leg, plus the along-track
  distance from the start of the segment.
\<close>

theorem getDistanceFromStart_nearest_of_all_segments:
  assumes "getNearestRouteLegResult env r p (LineDistance_new env) False = (leg, res)"
    and "leg < INVALID_INDEX_VALUE" "status res = ALONG_TRACK"
  shows "\<exists>k. leg = int k \<and> 1 \<le> k \<and> k < length (legs r) \<and> res = segmentDistance env r p k \<and>
           (\<forall>i. 1 \<le> i \<and> i < length (legs r) \<and> status (segmentDistance env r p i) \<noteq> INVALID \<longrightarrow>
                \<bar>distance res\<bar> \<le> \<bar>distance (segmentDistance env r p i)\<bar>) \<and>
           getDistanceFromStart env r p =
             meterToNm env
               \<bar>sum_list (map (\<lambda>l. nmToMeter env (distanceTo l))
                           (takeWhile (\<lambda>l. \<not> isMissed (procedureLeg l))
                              (drop 1 (take k (legs r))))) +
                distanceFrom1 res\<bar>"
proof -
  let ?init = "(LineDistance_new env)\<lparr>status := INVALID, distance := INVALID_DISTANCE_VALUE\<rparr>"
  let ?n = "length (legs r)"
  obtain mr idx where f: "fold (nearestRouteLegStep env r p False) [1..<?n]
                            (?init, INVALID_INDEX_VALUE) = (mr, idx)"
    by (metis surj_pair)
  have valid: "Pos_isValid env p"
    using assms(1,2) by (auto simp: getNearestRouteLegResult_def Let_def split: if_splits)
  have res: "leg = idx \<and> res = mr \<and> idx \<noteq> INVALID_INDEX_VALUE"
    using assms(1,2) valid unfolding getNearestRouteLegResult_def Let_def f
    by (auto split: if_splits)
  from fold_nearestRouteLegStep_result [OF f] res
  obtain k where k: "k \<in> set [1..<?n]" "idx = int k" "mr = segmentDistance env r p k"
    by blast
  have i0: "scanState (?init, INVALID_INDEX_VALUE) =
          (INVALID_DISTANCE_VALUE, INVALID_DISTANCE_VALUE, INVALID_INDEX_VALUE)"
    by (simp add: scanState_def INVALID_DISTANCE_VALUE_def)
  have i1: "scanState (mr, idx) = (\<bar>distance mr\<bar>, distance mr, idx)"
    by (simp add: scanState_def)
  have "fold (nearestAllLegStep env r p) [1..<?n]
          (INVALID_DISTANCE_VALUE, INVALID_DISTANCE_VALUE, INVALID_INDEX_VALUE) =
        (\<bar>distance mr\<bar>, distance mr, idx)"
    using fold_nearestRouteLegStep_scanState [of env r p "[1..<?n]" "(?init, INVALID_INDEX_VALUE)"]
    by (simp only: f i0 i1)
  with scanInv_fold [of env r p ?n]
  have "scanInv env r p ?n (\<bar>distance mr\<bar>, distance mr, idx)" by simp
  with res have minimal:
    "\<forall>i. 1 \<le> i \<and> i < ?n \<and> status (segmentDistance env r p i) \<noteq> INVALID \<longrightarrow>
         \<bar>distance mr\<bar> \<le> \<bar>distance (segmentDistance env r p i)\<bar>"
    unfolding scanInv_def by (simp only: prod.case) blast
  have kn: "nat leg = k" using res k(2) by simp
  have "getDistanceFromStart env r p =
          meterToNm env
            \<bar>sum_list (map (\<lambda>l. nmToMeter env (distanceTo l))
                        (takeWhile (\<lambda>l. \<not> isMissed (procedureLeg l))
                           (drop 1 (take k (legs r))))) +
             distanceFrom1 res\<bar>"
    using assms by (simp add: getDistanceFromStart_def Let_def fromstartMeterLoop_sum kn)
  with k res minimal show ?thesis by auto
qed

theorem getDistanceFromStart_nearest_of_all_segments_witness:
  "getNearestRouteLegResult lineEnv departureRoute 500 (LineDistance_new lineEnv) False =
     (1, \<lparr>status = ALONG_TRACK, distance = 0, distanceFrom1 = 500, distanceFrom2 = 500\<rparr>) \<and>
   getDistanceFromStart lineEnv departureRoute 500 = 500 / 1852"
proof -
  have n: "getNearestRouteLegResult lineEnv departureRoute 500 (LineDistance_new lineEnv) False =
     (1, \<lparr>status = ALONG_TRACK, distance = 0, distanceFrom1 = 500, distanceFrom2 = 500\<rparr>)"
    by (simp add: getNearestRouteLegResult_def nearestRouteLegStep_def departureRoute_def routeOf_def
          routeLegAt_def lineEnv_def lineDistanceMeterToLine_def upt_rec Let_def
          INVALID_INDEX_VALUE_def INVALID_DISTANCE_VALUE_def)
  from getDistanceFromStart_nearest_of_all_segments [OF n]
  obtain k where "1 = int k"
    "getDistanceFromStart lineEnv departureRoute 500 =
       meterToNm lineEnv
         \<bar>sum_list (map (\<lambda>l. nmToMeter lineEnv (distanceTo l))
                     (takeWhile (\<lambda>l. \<not> isMissed (procedureLeg l))
                        (drop 1 (take k (legs departureRoute))))) +
          distanceFrom1 \<lparr>status = ALONG_TRACK, distance = 0, distanceFrom1 = 500, distanceFrom2 = 500\<rparr>\<bar>"
    by (auto simp: INVALID_INDEX_VALUE_def)
  moreover from this(1) have "k = 1" by simp
  ultimately have "getDistanceFromStart lineEnv departureRoute 500 = 500 / 1852"
    by (simp add: lineEnv_def departureRoute_def routeOf_def)
  with n show ?thesis by simp
qed

text \<open>
  C5 as stated fails: in \<open>departureRoute\<close> leg 1 belongs to the departure procedure and
  is not editable. For the position 500 the nearest editable segment is leg 2, and its
  result is before the start, not along track; yet the function returns the distance
  500 m along the non-editable leg 1 and not the invalid distance.
\<close>

theorem getDistanceFromStart_not_editable_counterexample:
  "\<not> canEditLeg departureRoute 1 \<and>
   getNearestRouteLegResult lineEnv departureRoute 500 (LineDistance_new lineEnv) True =
     (2, \<lparr>status = BEFORE_START, distance = 500, distanceFrom1 = 500, distanceFrom2 = 1500\<rparr>) \<and>
   getDistanceFromStart lineEnv departureRoute 500 = 500 / 1852 \<and>
   getDistanceFromStart lineEnv departureRoute 500 \<noteq> INVALID_DISTANCE_VALUE"
  by (simp add: getDistanceFromStart_def getNearestRouteLegResult_def nearestRouteLegStep_def
        canEditLeg_def hasAnyDepartureProcedure_def hasAnyStarProcedure_def hasAnyArrivalProcedure_def
        departureRoute_def routeOf_def routeLegAt_def lineEnv_def lineDistanceMeterToLine_def
        upt_rec Let_def INVALID_INDEX_VALUE_def INVALID_DISTANCE_VALUE_def)

text \<open>
  When the locator finds no leg, or its result is not along track, the function
  converts the distance sentinel from metres to nautical miles before returning it.
\<close>

lemma getDistanceFromStart_not_along_track:
  assumes "getNearestRouteLegResult env r p (LineDistance_new env) False = (leg, res)"
    and "\<not> (leg < INVALID_INDEX_VALUE \<and> status res = ALONG_TRACK)"
  shows "getDistanceFromStart env r p = meterToNm env INVALID_DISTANCE_VALUE"
  using assms by (auto simp: getDistanceFromStart_def Let_def)

lemma getDistanceFromStart_before_start_threeLegRoute:
  "getDistanceFromStart lineEnv threeLegRoute (- 5) = INVALID_DISTANCE_VALUE / 1852"
  by (simp add: getDistanceFromStart_def getNearestRouteLegResult_def nearestRouteLegStep_def
        threeLegRoute_def routeOf_def routeLegAt_def lineEnv_def lineDistanceMeterToLine_def
        upt_rec Let_def INVALID_INDEX_VALUE_def INVALID_DISTANCE_VALUE_def)

end
